theory Spec2Isabelle
  imports Complex_Main
begin

section \<open>Errors\<close>

text \<open>
  Every way in which the code of \<^verbatim>\<open>joint_decorreltaion.py\<close> can stop with an
  exception is a value of this type. \<open>ValueError\<close> carries the message of the two
  \<^verbatim>\<open>raise ValueError(...)\<close> statements of the repository. The other constructors
  are exceptions raised inside the libraries or by the interpreter, named after the
  situation that raises them:
  \<^item> \<open>ShapeMismatch\<close>: the operand shapes of a matrix product, a concatenation or a
    broadcast assignment do not agree (numpy's ValueError);
  \<^item> \<open>ReshapeError\<close>: a reshape to a shape of another size (numpy's ValueError);
  \<^item> \<open>NegativeDimensions\<close>: \<^verbatim>\<open>np.zeros\<close> with a negative size (numpy's ValueError);
  \<^item> \<open>LinAlgError\<close>: raised by \<^verbatim>\<open>np.linalg.eig\<close>;
  \<^item> \<open>IndexError\<close>: an index array with an entry out of range, or the key None of a
    trial container;
  \<^item> \<open>KeyError\<close>: a condition label that the trial container does not know;
  \<^item> \<open>NoneOperand\<close>: the operand None of a matrix product;
  \<^item> \<open>TypeError\<close>: arithmetic on a tuple, at line 121;
  \<^item> \<open>UnboundLocalError\<close>: a local name read before any assignment, at line 123;
  \<^item> \<open>PercentileRange\<close>: a percentile rank outside [0, 100] (numpy's ValueError);
  \<^item> \<open>DetrendError\<close>: stands for whatever \<^verbatim>\<open>scipy.signal.detrend\<close> may raise.
\<close>

datatype error =
    ValueError string
  | ShapeMismatch
  | ReshapeError
  | NegativeDimensions
  | LinAlgError
  | IndexError
  | KeyError
  | NoneOperand
  | TypeError
  | UnboundLocalError
  | PercentileRange
  | DetrendError

definition bindE :: "error + 'x \<Rightarrow> ('x \<Rightarrow> error + 'y) \<Rightarrow> error + 'y" where
  "bindE m f = (case m of Inl e \<Rightarrow> Inl e | Inr x \<Rightarrow> f x)"

section \<open>Arrays\<close>

text \<open>
  A numpy array is its shape and its buffer in C order (last axis fastest). The code
  only handles 1-D arrays (lists), 2-D arrays (\<open>matrix\<close>) and the 3-D array
  \<^verbatim>\<open>epochs._data\<close> of shape (n_epochs, n_channels, n_times) (\<open>tensor\<close>).
  The element type \<open>'a\<close> stands for float64; only the operations the code applies
  to it are asked of it, and no law of arithmetic is used anywhere.
\<close>

datatype 'a matrix = Matrix (nrows: nat) (ncols: nat) (elems: "'a list")

datatype 'a tensor = Tensor (dim0: nat) (dim1: nat) (dim2: nat) (elems3: "'a list")

definition wf_tensor :: "'a tensor \<Rightarrow> bool" where
  "wf_tensor t \<longleftrightarrow> length (elems3 t) = dim0 t * dim1 t * dim2 t"

definition mget :: "'a matrix \<Rightarrow> nat \<Rightarrow> nat \<Rightarrow> 'a" where
  \<comment> \<open>\<^verbatim>\<open>m[i, j]\<close> for indices in range\<close>
  "mget m i j = elems m ! (i * ncols m + j)"

definition tget :: "'a tensor \<Rightarrow> nat \<Rightarrow> nat \<Rightarrow> nat \<Rightarrow> 'a" where
  \<comment> \<open>\<^verbatim>\<open>t[e, c, s]\<close> for indices in range\<close>
  "tget t e c s = elems3 t ! ((e * dim1 t + c) * dim2 t + s)"

definition transpose_102 :: "'a tensor \<Rightarrow> 'a tensor" where
  \<comment> \<open>\<^verbatim>\<open>np.transpose(t, (1, 0, 2))\<close>: the result at [c, e, s] is t[e, c, s]\<close>
  "transpose_102 t =
     Tensor (dim1 t) (dim0 t) (dim2 t)
       (map (\<lambda>k. tget t ((k div dim2 t) mod dim0 t) (k div (dim0 t * dim2 t)) (k mod dim2 t))
            [0..<dim1 t * dim0 t * dim2 t])"

definition reshape_2d :: "'a tensor \<Rightarrow> nat \<Rightarrow> nat \<Rightarrow> error + 'a matrix" where
  \<comment> \<open>\<^verbatim>\<open>t.reshape(r, c)\<close>: the buffer is kept, the sizes must agree\<close>
  "reshape_2d t r c =
     (if dim0 t * dim1 t * dim2 t = r * c then Inr (Matrix r c (elems3 t)) else Inl ReshapeError)"

definition mT :: "'a matrix \<Rightarrow> 'a matrix" where
  \<comment> \<open>\<^verbatim>\<open>m.T\<close> of a 2-D array: the result at [i, j] is m[j, i]\<close>
  "mT m =
     Matrix (ncols m) (nrows m)
       (map (\<lambda>k. mget m (k mod nrows m) (k div nrows m)) [0..<ncols m * nrows m])"

definition reshape_infer :: "'a matrix \<Rightarrow> nat \<Rightarrow> nat \<Rightarrow> error + 'a tensor" where
  \<comment> \<open>\<^verbatim>\<open>np.reshape(m, [-1, e, t])\<close>: numpy infers the first axis as size / (e * t)
      and raises when e * t is 0 or does not divide the size\<close>
  "reshape_infer m e t =
     (if e * t = 0 \<or> (nrows m * ncols m) mod (e * t) \<noteq> 0 then Inl ReshapeError
      else Inr (Tensor ((nrows m * ncols m) div (e * t)) e t (elems m)))"

definition dot :: "'a::{zero,plus,times} list \<Rightarrow> 'a list \<Rightarrow> 'a" where
  "dot xs ys = foldl (+) 0 (map2 (*) xs ys)"

definition mrow :: "'a matrix \<Rightarrow> nat \<Rightarrow> 'a list" where
  "mrow m i = map (\<lambda>j. mget m i j) [0..<ncols m]"

definition mcol :: "'a matrix \<Rightarrow> nat \<Rightarrow> 'a list" where
  "mcol m j = map (\<lambda>i. mget m i j) [0..<nrows m]"

definition matmul :: "'a::{zero,plus,times} matrix \<Rightarrow> 'a matrix \<Rightarrow> error + 'a matrix" where
  \<comment> \<open>\<^verbatim>\<open>a @ b\<close> of two 2-D arrays; numpy raises ValueError when the inner sizes differ\<close>
  "matmul a b =
     (if ncols a \<noteq> nrows b then Inl ShapeMismatch
      else Inr (Matrix (nrows a) (ncols b)
                  (map (\<lambda>k. dot (mrow a (k div ncols b)) (mcol b (k mod ncols b)))
                       [0..<nrows a * ncols b])))"

definition identity :: "nat \<Rightarrow> 'a::{zero,one} matrix" where
  \<comment> \<open>\<^verbatim>\<open>np.identity(n)\<close>\<close>
  "identity n = Matrix n n (map (\<lambda>k. if k div n = k mod n then 1 else 0) [0..<n * n])"

definition tile :: "'a matrix \<Rightarrow> nat \<Rightarrow> 'a matrix" where
  \<comment> \<open>\<^verbatim>\<open>np.tile(m, reps)\<close> of a 2-D array with an integer reps: reps copies side by side\<close>
  "tile m reps =
     Matrix (nrows m) (ncols m * reps)
       (map (\<lambda>k. mget m (k div (ncols m * reps)) ((k mod (ncols m * reps)) mod ncols m))
            [0..<nrows m * (ncols m * reps)])"

definition scale :: "'a::times matrix \<Rightarrow> 'a \<Rightarrow> 'a matrix" where
  \<comment> \<open>\<^verbatim>\<open>m * c\<close> for a scalar c\<close>
  "scale m c = Matrix (nrows m) (ncols m) (map (\<lambda>x. x * c) (elems m))"

definition concatenate_axis1 :: "'a matrix \<Rightarrow> 'a matrix \<Rightarrow> error + 'a matrix" where
  \<comment> \<open>\<^verbatim>\<open>np.concatenate([a, b], axis=1)\<close>: the row counts must agree\<close>
  "concatenate_axis1 a b =
     (if nrows a \<noteq> nrows b then Inl ShapeMismatch
      else Inr (Matrix (nrows a) (ncols a + ncols b)
                  (map (\<lambda>k. let i = k div (ncols a + ncols b); j = k mod (ncols a + ncols b)
                            in if j < ncols a then mget a i j else mget b i (j - ncols a))
                       [0..<nrows a * (ncols a + ncols b)])))"

definition concatenate_axis0 :: "'a tensor \<Rightarrow> 'a tensor \<Rightarrow> error + 'a tensor" where
  \<comment> \<open>\<^verbatim>\<open>np.concatenate([s, t])\<close> of two 3-D arrays: the trailing axes must agree\<close>
  "concatenate_axis0 s t =
     (if dim1 s \<noteq> dim1 t \<or> dim2 s \<noteq> dim2 t then Inl ShapeMismatch
      else Inr (Tensor (dim0 s + dim0 t) (dim1 s) (dim2 s) (elems3 s @ elems3 t)))"

definition diag :: "'a::zero list \<Rightarrow> 'a matrix" where
  \<comment> \<open>\<^verbatim>\<open>np.diag(v)\<close> of a 1-D array: the square matrix with v on its diagonal\<close>
  "diag v =
     Matrix (length v) (length v)
       (map (\<lambda>k. if k div length v = k mod length v then v ! (k div length v) else 0)
            [0..<length v * length v])"

definition diagonal :: "'a matrix \<Rightarrow> 'a list" where
  \<comment> \<open>\<^verbatim>\<open>np.diag(m)\<close> of a 2-D array: its main diagonal\<close>
  "diagonal m = map (\<lambda>i. mget m i i) [0..<min (nrows m) (ncols m)]"

definition slice_to :: "'x list \<Rightarrow> int option \<Rightarrow> 'x list" where
  \<comment> \<open>\<^verbatim>\<open>xs[0:k]\<close>: a stop beyond the end is clipped, a negative stop counts from the
      end, and the stop None keeps everything\<close>
  "slice_to xs k =
     (case k of
        None \<Rightarrow> xs
      | Some k \<Rightarrow> if 0 \<le> k then take (nat k) xs else take (length xs - nat (- k)) xs)"

definition take_idx :: "'a list \<Rightarrow> nat list \<Rightarrow> error + 'a list" where
  \<comment> \<open>\<^verbatim>\<open>v[idx]\<close> with an index array\<close>
  "take_idx v idx =
     (if \<forall>i \<in> set idx. i < length v then Inr (map (\<lambda>i. v ! i) idx) else Inl IndexError)"

definition take_cols :: "'a matrix \<Rightarrow> nat list \<Rightarrow> error + 'a matrix" where
  \<comment> \<open>\<^verbatim>\<open>m[:, idx]\<close> with an index array\<close>
  "take_cols m idx =
     (if \<forall>j \<in> set idx. j < ncols m
      then Inr (Matrix (nrows m) (length idx)
                  (map (\<lambda>k. mget m (k div length idx) (idx ! (k mod length idx)))
                       [0..<nrows m * length idx]))
      else Inl IndexError)"

definition take_trials :: "'a tensor \<Rightarrow> nat list \<Rightarrow> error + 'a tensor" where
  \<comment> \<open>\<^verbatim>\<open>t[idx, :, :]\<close> with an index array\<close>
  "take_trials t idx =
     (if \<forall>i \<in> set idx. i < dim0 t
      then Inr (Tensor (length idx) (dim1 t) (dim2 t)
                  (concat (map (\<lambda>i. take (dim1 t * dim2 t) (drop (i * (dim1 t * dim2 t)) (elems3 t)))
                               idx)))
      else Inl IndexError)"

section \<open>The numerical libraries\<close>

text \<open>
  What numpy, scipy and LAPACK compute is not part of the repository: it is a parameter
  of every function below. \<open>eig_solver\<close> is the decomposition behind
  \<^verbatim>\<open>np.linalg.eig\<close> for a square matrix (eigenvalues, then the matrix whose columns
  are the eigenvectors; \<open>None\<close> when the routine raises), \<open>argsort\<close> is
  \<^verbatim>\<open>np.argsort\<close> on a 1-D array, \<open>np_sqrt\<close> and \<open>np_abs\<close> act on one element,
  \<open>detrend\<close> is \<^verbatim>\<open>scipy.signal.detrend(X, axis=-1, type="linear")\<close>, \<open>np_mean\<close>
  the mean of a list, \<open>percentile\<close> the percentile of a list at a rank in [0, 100], and
  \<open>random_choice i n\<close> the indices that
  \<^verbatim>\<open>np.random.choice(np.arange(n), n, replace=True)\<close> draws when called for the
  i-th time.
\<close>

record 'a numlib =
  eig_solver :: "'a matrix \<Rightarrow> ('a list \<times> 'a matrix) option"
  argsort :: "'a list \<Rightarrow> nat list"
  np_sqrt :: "'a \<Rightarrow> 'a"
  np_abs :: "'a \<Rightarrow> 'a"
  detrend :: "'a tensor \<Rightarrow> error + 'a tensor"
  np_mean :: "'a list \<Rightarrow> 'a"
  percentile :: "'a list \<Rightarrow> rat \<Rightarrow> 'a"
  random_choice :: "nat \<Rightarrow> nat \<Rightarrow> nat list"

definition linalg_eig :: "'a numlib \<Rightarrow> 'a matrix \<Rightarrow> error + ('a list \<times> 'a matrix)" where
  \<comment> \<open>\<^verbatim>\<open>np.linalg.eig(a)\<close>: LinAlgError for a matrix that is not square and when the
      decomposition raises (no convergence, an entry that is not finite)\<close>
  "linalg_eig lib a =
     (if nrows a \<noteq> ncols a then Inl LinAlgError
      else case eig_solver lib a of None \<Rightarrow> Inl LinAlgError | Some wv \<Rightarrow> Inr wv)"

definition eig_ok :: "'a numlib \<Rightarrow> bool" where
  \<comment> \<open>the documented result shapes of \<^verbatim>\<open>np.linalg.eig\<close> for an n by n matrix: n
      eigenvalues and an n by n matrix\<close>
  "eig_ok lib \<longleftrightarrow>
     (\<forall>a w v. nrows a = ncols a \<and> eig_solver lib a = Some (w, v) \<longrightarrow>
        length w = nrows a \<and> nrows v = nrows a \<and> ncols v = nrows a)"

definition argsort_ok :: "'a numlib \<Rightarrow> bool" where
  \<comment> \<open>\<^verbatim>\<open>np.argsort\<close> returns a permutation of the positions\<close>
  "argsort_ok lib \<longleftrightarrow>
     (\<forall>xs. length (argsort lib xs) = length xs \<and> set (argsort lib xs) = {0..<length xs})"

definition lib_ok :: "'a numlib \<Rightarrow> bool" where
  \<comment> \<open>the library keeps the result shapes that its documentation states\<close>
  "lib_ok lib \<longleftrightarrow> eig_ok lib \<and> argsort_ok lib"

section \<open>The trial container\<close>

text \<open>
  The part of an \<^verbatim>\<open>mne.Epochs\<close> object that the code reads: the data array, the
  channel count and sampling rate of \<^verbatim>\<open>info\<close>, the event rows (sample, previous
  code, code), the label dictionary \<^verbatim>\<open>event_id\<close> in insertion order, and
  \<^verbatim>\<open>tmin\<close>. MNE keeps the data 3-D, which the type \<open>tensor\<close> expresses.
\<close>

record 'a info =
  nchan :: nat
  sfreq :: 'a

record 'a epochs =
  data :: "'a tensor"
  info :: "'a info"
  events :: "(int \<times> int \<times> int) list"
  event_id :: "(string \<times> int) list"
  tmin :: 'a

definition create_info :: "nat \<Rightarrow> 'a \<Rightarrow> 'a info" where
  \<comment> \<open>\<^verbatim>\<open>mne.create_info(n, sfreq, ch_types="eeg")\<close>\<close>
  "create_info n f = \<lparr>nchan = n, sfreq = f\<rparr>"

definition digit_char :: "nat \<Rightarrow> char" where
  "digit_char d = ''0123456789'' ! d"

function str_nat :: "nat \<Rightarrow> string" where
  "str_nat n = (if n < 10 then [digit_char n] else str_nat (n div 10) @ [digit_char (n mod 10)])"
  by pat_completeness auto
termination
  by (relation "measure id") auto

definition str_int :: "int \<Rightarrow> string" where
  \<comment> \<open>\<^verbatim>\<open>str(i)\<close> of an integer\<close>
  "str_int i = (if i < 0 then CHR ''-'' # str_nat (nat (- i)) else str_nat (nat i))"

definition EpochsArray ::
  "'a tensor \<Rightarrow> 'a info \<Rightarrow> (int \<times> int \<times> int) list \<Rightarrow> 'a \<Rightarrow> 'a epochs" where
  \<comment> \<open>\<^verbatim>\<open>mne.EpochsArray(data, info, events, tmin)\<close>. The labels of the new container
      are the ones MNE derives when it is given none: \<^verbatim>\<open>str(code)\<close> for every distinct
      event code, in ascending order. The checks that MNE makes on its arguments are not
      modelled: it refuses data without channels or without trials, an \<^verbatim>\<open>info\<close> of
      another channel count than the data, and events of another count than the trials.\<close>
  "EpochsArray d i ev t =
     \<lparr>data = d, info = i, events = ev,
      event_id = map (\<lambda>c. (str_int c, c)) (sort (remdups (map (\<lambda>e. snd (snd e)) ev))),
      tmin = t\<rparr>"

fun split_tags :: "string \<Rightarrow> string list" where
  \<comment> \<open>\<^verbatim>\<open>label.split('/')\<close>\<close>
  "split_tags [] = [[]]"
| "split_tags (c # cs) =
     (if c = CHR ''/'' then [] # split_tags cs
      else (case split_tags cs of [] \<Rightarrow> [[c]] | w # ws \<Rightarrow> (c # w) # ws))"

definition tags_match :: "string \<Rightarrow> string \<Rightarrow> bool" where
  \<comment> \<open>\<^verbatim>\<open>set(label.split('/')).issubset(key.split('/'))\<close>: how MNE matches a requested
      label against a key of \<^verbatim>\<open>event_id\<close>; without tags this is equality\<close>
  "tags_match label key \<longleftrightarrow> (\<forall>t \<in> set (split_tags label). t \<in> set (split_tags key))"

definition getitem :: "'a epochs \<Rightarrow> string option \<Rightarrow> error + 'a epochs" where
  \<comment> \<open>\<^verbatim>\<open>epochs[condition]\<close>: the trials whose event code belongs to a key of
      \<^verbatim>\<open>event_id\<close> that the label matches; the new container keeps the events of
      these trials and the labels whose code still occurs. KeyError when no key matches
      (the containers here carry no metadata to query instead), IndexError for the key
      None.\<close>
  "getitem ep condition =
     (case condition of
        None \<Rightarrow> Inl IndexError
      | Some label \<Rightarrow>
          (let codes = map snd (filter (\<lambda>(key, code). tags_match label key) (event_id ep)) in
           if codes = [] then Inl KeyError
           else
             (let sel = map fst (filter (\<lambda>(i, ev). snd (snd ev) \<in> set codes)
                                        (zip [0..<dim0 (data ep)] (events ep)));
                  evs = filter (\<lambda>ev. snd (snd ev) \<in> set codes) (events ep)
              in bindE (take_trials (data ep) sel)
                   (\<lambda>d. Inr (ep\<lparr>data := d, events := evs,
                                 event_id := filter (\<lambda>(key, code). code \<in> set (map (\<lambda>ev. snd (snd ev)) evs))
                                                    (event_id ep)\<rparr>)))))"

definition shape3 :: "'a epochs \<Rightarrow> nat \<times> nat \<times> nat" where
  \<comment> \<open>\<^verbatim>\<open>epochs._data.shape\<close>\<close>
  "shape3 ep = (dim0 (data ep), dim1 (data ep), dim2 (data ep))"

section \<open>The bias-filtered eigensolver\<close>

definition transform ::
  "'a::{zero,one,plus,times,inverse} numlib \<Rightarrow> 'a matrix \<Rightarrow> 'a matrix \<Rightarrow> int option \<Rightarrow> int option
     \<Rightarrow> error + ('a matrix \<times> 'a matrix \<times> 'a matrix)" where
  \<comment> \<open>\<^verbatim>\<open>_transform(X, L, keep1, keep2)\<close>, lines 86 to 104\<close>
  "transform lib X L keep1 keep2 =
     bindE (matmul (mT X) X) (\<lambda>C0.
     bindE (linalg_eig lib C0) (\<lambda>(D, P).
     let idx = slice_to (rev (argsort lib D)) keep1 in
     bindE (take_idx D idx) (\<lambda>D.
     bindE (take_cols P idx) (\<lambda>P.
     let N = diag (map (\<lambda>d. np_sqrt lib (1 / d)) D) in
     bindE (bindE (matmul X P) (\<lambda>XP. matmul XP N)) (\<lambda>Z.
     bindE (matmul L Z) (\<lambda>Zbar.
     bindE (matmul (mT Zbar) Zbar) (\<lambda>C1.
     bindE (linalg_eig lib C1) (\<lambda>(Dz, Q).
     let idx = slice_to (rev (argsort lib Dz)) keep2 in
     bindE (take_idx Dz idx) (\<lambda>Dz.
     bindE (take_cols Q idx) (\<lambda>Q.
     Inr (P, N, Q)))))))))))"

section \<open>The decorrelation model\<close>

datatype kind = Evoked | Difference

record 'a JointDecorrelation =
  kind :: kind
  mixing :: "'a matrix option"
  unmixing :: "'a matrix option"

definition JointDecorrelation_init :: "string \<Rightarrow> error + 'a JointDecorrelation" where
  \<comment> \<open>\<^verbatim>\<open>__init__\<close>, lines 15 to 20\<close>
  "JointDecorrelation_init k =
     (if k = ''evoked'' then Inr \<lparr>kind = Evoked, mixing = None, unmixing = None\<rparr>
      else if k = ''difference'' then Inr \<lparr>kind = Difference, mixing = None, unmixing = None\<rparr>
      else Inl (ValueError ''kind must be either 'evoked' or 'difference'!''))"

definition matmul_r :: "'a::{zero,plus,times} matrix \<Rightarrow> 'a matrix option \<Rightarrow> error + 'a matrix" where
  \<comment> \<open>\<^verbatim>\<open>a @ self.unmixing\<close>: numpy rejects the operand None\<close>
  "matmul_r a b = (case b of None \<Rightarrow> Inl NoneOperand | Some b \<Rightarrow> matmul a b)"

definition matmul_l :: "'a::{zero,plus,times} matrix option \<Rightarrow> 'a matrix \<Rightarrow> error + 'a matrix" where
  \<comment> \<open>\<^verbatim>\<open>self.unmixing @ b\<close>\<close>
  "matmul_l a b = (case a of None \<Rightarrow> Inl NoneOperand | Some a \<Rightarrow> matmul a b)"

definition fit_defaults ::
  "'a JointDecorrelation \<Rightarrow> 'a epochs \<Rightarrow> int option \<Rightarrow> int option \<Rightarrow> int option
     \<Rightarrow> string option \<Rightarrow> string option
     \<Rightarrow> error + (int \<times> int \<times> int option \<times> string option \<times> string option)" where
  \<comment> \<open>\<^verbatim>\<open>fit\<close>, lines 25 to 36: the defaults of keep1, keep2, keep3 and of the two labels\<close>
  "fit_defaults self epochs keep1 keep2 keep3 condition1 condition2 =
     (let keep1 = (case keep1 of None \<Rightarrow> int (nchan (info epochs)) | Some k \<Rightarrow> k);
          keep2 = (case keep2 of None \<Rightarrow> keep1 | Some k \<Rightarrow> k);
          keep3 = (if keep3 = None \<and> kind self = Difference then Some keep2 else keep3)
      in if condition1 = None \<and> condition2 = None \<and> kind self = Difference
         then (if length (map fst (event_id epochs)) \<noteq> 2
               then Inl (ValueError
                 ''If conditions are not specified, epochs must contain exactly two types of events!'')
               else Inr (keep1, keep2, keep3,
                         Some (map fst (event_id epochs) ! 0), Some (map fst (event_id epochs) ! 1)))
         else Inr (keep1, keep2, keep3, condition1, condition2))"

definition fit_select ::
  "'a numlib \<Rightarrow> 'a JointDecorrelation \<Rightarrow> 'a epochs \<Rightarrow> string option \<Rightarrow> bool \<Rightarrow> error + 'a tensor" where
  \<comment> \<open>\<^verbatim>\<open>fit\<close>, lines 38 to 44: the value of X after the selection by condition and the
      detrending (the message printed at line 44 is not modelled)\<close>
  "fit_select lib self epochs condition1 detrending =
     bindE (if kind self = Evoked then Inr (data epochs)
            else bindE (getitem epochs condition1) (\<lambda>a.
                 bindE (getitem epochs condition1) (\<lambda>b.
                 concatenate_axis0 (data a) (data b))))
       (\<lambda>X. if detrending then detrend lib X else Inr X)"

definition flatten_trials :: "'a tensor \<Rightarrow> error + 'a matrix" where
  \<comment> \<open>lines 45 and 46 (and again 62 and 63, 71 and 72):
      \<^verbatim>\<open>np.transpose(d, (1, 0, 2)).reshape(n_channels, n_epochs * n_times).T\<close>\<close>
  "flatten_trials d =
     bindE (reshape_2d (transpose_102 d) (dim1 d) (dim0 d * dim2 d)) (\<lambda>X. Inr (mT X))"

definition fit_stage1_args ::
  "'a::{zero,one} numlib \<Rightarrow> 'a JointDecorrelation \<Rightarrow> 'a epochs \<Rightarrow> int option \<Rightarrow> int option \<Rightarrow> int option
     \<Rightarrow> string option \<Rightarrow> string option \<Rightarrow> bool
     \<Rightarrow> error + ('a matrix \<times> 'a matrix \<times> int \<times> int \<times> int option \<times> string option \<times> string option)" where
  \<comment> \<open>\<^verbatim>\<open>fit\<close>, lines 25 to 47: everything before the first call of the eigensolver. The
      result holds the X and L of line 48 and the locals that the rest of fit reads.
      Line 45 assigns X again, from \<^verbatim>\<open>epochs._data\<close>.\<close>
  "fit_stage1_args lib self epochs keep1 keep2 keep3 condition1 condition2 detrending =
     bindE (fit_defaults self epochs keep1 keep2 keep3 condition1 condition2)
       (\<lambda>(keep1, keep2, keep3, condition1, condition2).
     bindE (fit_select lib self epochs condition1 detrending) (\<lambda>X.
     bindE (flatten_trials (data epochs)) (\<lambda>X.
     let L = tile (identity (dim2 (data epochs))) (dim0 (data epochs))
     in Inr (X, L, keep1, keep2, keep3, condition1, condition2))))"

definition stage1_matrix ::
  "'a::{zero,one} numlib \<Rightarrow> 'a JointDecorrelation \<Rightarrow> 'a epochs \<Rightarrow> int option \<Rightarrow> int option \<Rightarrow> int option
     \<Rightarrow> string option \<Rightarrow> string option \<Rightarrow> bool \<Rightarrow> error + 'a matrix" where
  \<comment> \<open>the data matrix X that line 48 of \<^verbatim>\<open>fit\<close> hands to the eigensolver\<close>
  "stage1_matrix lib self epochs keep1 keep2 keep3 condition1 condition2 detrending =
     bindE (fit_stage1_args lib self epochs keep1 keep2 keep3 condition1 condition2 detrending)
       (\<lambda>(X, rest). Inr X)"

definition fit_stage2_unmixing ::
  "'a::{zero,one,plus,times,inverse,uminus} numlib \<Rightarrow> 'a JointDecorrelation \<Rightarrow> 'a epochs \<Rightarrow> 'a matrix
     \<Rightarrow> int \<Rightarrow> int option \<Rightarrow> string option \<Rightarrow> string option
     \<Rightarrow> error + ('a matrix \<times> 'a matrix \<times> 'a matrix \<times> 'a matrix)" where
  \<comment> \<open>\<^verbatim>\<open>fit\<close>, lines 52 to 57 up to the assignment: the triple of the second stage and
      the value that line 57 is about to store\<close>
  "fit_stage2_unmixing lib self epochs X keep2 keep3 condition1 condition2 =
     bindE (getitem epochs condition1) (\<lambda>a.
     bindE (getitem epochs condition2) (\<lambda>b.
     bindE (concatenate_axis1 (tile (identity (dim2 (data epochs))) (dim0 (data a)))
                              (scale (tile (identity (dim2 (data epochs))) (dim0 (data b))) (- 1)))
       (\<lambda>L.
     bindE (matmul_r X (unmixing self)) (\<lambda>Y.
     bindE (transform lib Y L (Some keep2) keep3) (\<lambda>(P, N, Q).
     bindE (bindE (bindE (matmul_l (unmixing self) P) (\<lambda>UP. matmul UP N))
                  (\<lambda>UPN. matmul UPN Q))
       (\<lambda>U. Inr (P, N, Q, U)))))))"

definition fit_stage2 ::
  "'a::{zero,one,plus,times,inverse,uminus} numlib \<Rightarrow> 'a JointDecorrelation \<Rightarrow> 'a epochs \<Rightarrow> 'a matrix
     \<Rightarrow> int \<Rightarrow> int option \<Rightarrow> string option \<Rightarrow> string option
     \<Rightarrow> (error + unit) \<times> 'a JointDecorrelation" where
  \<comment> \<open>\<^verbatim>\<open>fit\<close>, lines 52 to 58: the second stage of Difference mode. The second component
      is the object as the call leaves it, also when it raises.\<close>
  "fit_stage2 lib self epochs X keep2 keep3 condition1 condition2 =
     (case fit_stage2_unmixing lib self epochs X keep2 keep3 condition1 condition2 of
        Inl e \<Rightarrow> (Inl e, self)
      | Inr (P, N, Q, U) \<Rightarrow>
          (let self = self\<lparr>unmixing := Some U\<rparr> in
           case bindE (bindE (matmul (mT Q) (diag (map (\<lambda>x. 1 / x) (diagonal N))))
                             (\<lambda>QD. matmul QD (mT P)))
                      (\<lambda>QDP. matmul_r QDP (mixing self)) of
             Inl e \<Rightarrow> (Inl e, self)
           | Inr M \<Rightarrow> (Inr (), self\<lparr>mixing := Some M\<rparr>)))"

definition fit ::
  "'a::{zero,one,plus,times,inverse,uminus} numlib \<Rightarrow> 'a JointDecorrelation \<Rightarrow> 'a epochs
     \<Rightarrow> int option \<Rightarrow> int option \<Rightarrow> int option \<Rightarrow> string option \<Rightarrow> string option \<Rightarrow> bool
     \<Rightarrow> (error + unit) \<times> 'a JointDecorrelation" where
  \<comment> \<open>\<^verbatim>\<open>fit\<close>, lines 22 to 58. The second component is the object as the call leaves
      it, also when it raises.\<close>
  "fit lib self epochs keep1 keep2 keep3 condition1 condition2 detrending =
     (case fit_stage1_args lib self epochs keep1 keep2 keep3 condition1 condition2 detrending of
        Inl e \<Rightarrow> (Inl e, self)
      | Inr (X, L, keep1, keep2, keep3, condition1, condition2) \<Rightarrow>
          (case transform lib X L (Some keep1) (Some keep2) of
             Inl e \<Rightarrow> (Inl e, self)
           | Inr (P, N, Q) \<Rightarrow>
               (case bindE (matmul P N) (\<lambda>PN. matmul PN Q) of
                  Inl e \<Rightarrow> (Inl e, self)
                | Inr U \<Rightarrow>
                    (let self = self\<lparr>unmixing := Some U\<rparr> in
                     case bindE (matmul (mT Q) (diag (map (\<lambda>x. 1 / x) (diagonal N))))
                                (\<lambda>QD. matmul QD (mT P)) of
                       Inl e \<Rightarrow> (Inl e, self)
                     | Inr M \<Rightarrow>
                         (let self = self\<lparr>mixing := Some M\<rparr> in
                          if kind self = Difference
                          then fit_stage2 lib self epochs X keep2 keep3 condition1 condition2
                          else (Inr (), self))))))"

definition fit_stage1 ::
  "'a::{zero,one,plus,times,inverse,uminus} numlib \<Rightarrow> 'a JointDecorrelation \<Rightarrow> 'a epochs
     \<Rightarrow> int option \<Rightarrow> int option \<Rightarrow> int option \<Rightarrow> string option \<Rightarrow> string option \<Rightarrow> bool
     \<Rightarrow> error + ('a matrix \<times> int \<times> int option \<times> string option \<times> string option
                  \<times> 'a matrix \<times> 'a matrix)" where
  \<comment> \<open>\<^verbatim>\<open>fit\<close>, lines 25 to 50, as a value: the error that these lines raise, or the
      locals that the second stage reads together with the matrices that lines 49 and 50
      assign to \<^verbatim>\<open>self.unmixing\<close> and \<^verbatim>\<open>self.mixing\<close>\<close>
  "fit_stage1 lib self epochs keep1 keep2 keep3 condition1 condition2 detrending =
     bindE (fit_stage1_args lib self epochs keep1 keep2 keep3 condition1 condition2 detrending)
       (\<lambda>(X, L, keep1, keep2, keep3, condition1, condition2).
     bindE (transform lib X L (Some keep1) (Some keep2)) (\<lambda>(P, N, Q).
     bindE (bindE (matmul P N) (\<lambda>PN. matmul PN Q)) (\<lambda>U.
     bindE (bindE (matmul (mT Q) (diag (map (\<lambda>x. 1 / x) (diagonal N)))) (\<lambda>QD. matmul QD (mT P)))
       (\<lambda>M. Inr (X, keep2, keep3, condition1, condition2, U, M)))))"

section \<open>Projection\<close>

definition get_components ::
  "'a::{zero,plus,times} JointDecorrelation \<Rightarrow> 'a epochs \<Rightarrow> error + 'a epochs" where
  \<comment> \<open>\<^verbatim>\<open>get_components\<close>, lines 60 to 67\<close>
  "get_components self epochs =
     bindE (flatten_trials (data epochs)) (\<lambda>X.
     bindE (matmul_r X (unmixing self)) (\<lambda>Y.
     bindE (reshape_infer (mT Y) (dim0 (data epochs)) (dim2 (data epochs))) (\<lambda>Y.
     let Y = transpose_102 Y;
         info = create_info (dim1 Y) (sfreq (info epochs))
     in Inr (EpochsArray Y info (events epochs) (tmin epochs)))))"

definition reproject_components ::
  "'a::{zero,plus,times} JointDecorrelation \<Rightarrow> 'a epochs \<Rightarrow> error + 'a epochs" where
  \<comment> \<open>\<^verbatim>\<open>reproject_components\<close>, lines 69 to 76\<close>
  "reproject_components self epochs =
     bindE (flatten_trials (data epochs)) (\<lambda>X.
     bindE (matmul_r X (unmixing self)) (\<lambda>Y.
     bindE (matmul_r Y (mixing self)) (\<lambda>X.
     bindE (reshape_infer (mT X) (dim0 (data epochs)) (dim2 (data epochs))) (\<lambda>X.
     let X = transpose_102 X
     in Inr (EpochsArray X (info epochs) (events epochs) (tmin epochs))))))"

section \<open>The bootstrap estimator\<close>

text \<open>
  The variable \<^verbatim>\<open>ci\<close> of \<^verbatim>\<open>bootstrap_components\<close> holds the float parameter when
  the loop starts and the pair of percentile ranks after line 121 has run. A finite float
  is a rational number, and the ranks are computed in \<open>rat\<close>.
\<close>

datatype ci_value = Level rat | Ranks rat rat

record 'a boot_state =
  buffer :: "'a tensor"
  ci_var :: ci_value
  bands :: "('a matrix \<times> 'a matrix) option"

definition zeros :: "int \<Rightarrow> int \<Rightarrow> nat \<Rightarrow> error + 'a::zero tensor" where
  \<comment> \<open>\<^verbatim>\<open>np.zeros([n, k, t])\<close>: numpy raises ValueError for a negative size\<close>
  "zeros n k t =
     (if n < 0 \<or> k < 0 then Inl NegativeDimensions
      else Inr (Tensor (nat n) (nat k) t (replicate (nat n * nat k * t) 0)))"

definition average :: "'a numlib \<Rightarrow> 'a epochs \<Rightarrow> 'a matrix" where
  \<comment> \<open>\<^verbatim>\<open>Y.average().data\<close>: the mean over the trials, one row per channel\<close>
  "average lib Y =
     Matrix (dim1 (data Y)) (dim2 (data Y))
       (map (\<lambda>k. np_mean lib (map (\<lambda>e. tget (data Y) e (k div dim2 (data Y)) (k mod dim2 (data Y)))
                                    [0..<dim0 (data Y)]))
            [0..<dim1 (data Y) * dim2 (data Y)])"

definition assign_slab :: "'a tensor \<Rightarrow> nat \<Rightarrow> 'a matrix \<Rightarrow> error + 'a tensor" where
  \<comment> \<open>\<^verbatim>\<open>buf[i, :, :] = src\<close> for i in range: src is broadcast, so each of its axes has
      the size of the target axis or the size 1; otherwise numpy raises ValueError\<close>
  "assign_slab buf i src =
     (if (nrows src = dim1 buf \<or> nrows src = 1) \<and> (ncols src = dim2 buf \<or> ncols src = 1)
      then Inr (Tensor (dim0 buf) (dim1 buf) (dim2 buf)
                  (take (i * (dim1 buf * dim2 buf)) (elems3 buf)
                   @ map (\<lambda>k. mget src (if nrows src = dim1 buf then k div dim2 buf else 0)
                                        (if ncols src = dim2 buf then k mod dim2 buf else 0))
                         [0..<dim1 buf * dim2 buf]
                   @ drop ((i + 1) * (dim1 buf * dim2 buf)) (elems3 buf)))
      else Inl ShapeMismatch)"

definition tensor_abs :: "'a numlib \<Rightarrow> 'a tensor \<Rightarrow> 'a tensor" where
  \<comment> \<open>\<^verbatim>\<open>np.abs(t)\<close>\<close>
  "tensor_abs lib t = Tensor (dim0 t) (dim1 t) (dim2 t) (map (np_abs lib) (elems3 t))"

definition percentile_axis0 :: "'a numlib \<Rightarrow> 'a tensor \<Rightarrow> rat \<Rightarrow> 'a matrix" where
  \<comment> \<open>one rank of \<^verbatim>\<open>np.percentile(t, q, axis=0)\<close>: the percentile over the first axis,
      cell by cell\<close>
  "percentile_axis0 lib t q =
     Matrix (dim1 t) (dim2 t)
       (map (\<lambda>k. percentile lib (map (\<lambda>i. tget t i (k div dim2 t) (k mod dim2 t)) [0..<dim0 t]) q)
            [0..<dim1 t * dim2 t])"

definition np_percentile ::
  "'a numlib \<Rightarrow> 'a tensor \<Rightarrow> rat \<times> rat \<Rightarrow> error + ('a matrix \<times> 'a matrix)" where
  \<comment> \<open>\<^verbatim>\<open>np.percentile(t, (lo, hi), axis=0)\<close>, unpacked into its two slices; numpy raises
      ValueError for a rank outside [0, 100]\<close>
  "np_percentile lib t q =
     (if 0 \<le> fst q \<and> fst q \<le> 100 \<and> 0 \<le> snd q \<and> snd q \<le> 100
      then Inr (percentile_axis0 lib t (fst q), percentile_axis0 lib t (snd q))
      else Inl PercentileRange)"

definition bootstrap_body ::
  "'a::{zero,one,plus,times,inverse,uminus} numlib \<Rightarrow> 'a epochs \<Rightarrow> nat \<Rightarrow> nat \<Rightarrow> 'a boot_state
     \<Rightarrow> error + 'a boot_state" where
  \<comment> \<open>one pass through the loop body, lines 114 to 122, for the loop index i\<close>
  "bootstrap_body lib epochs n_epochs i st =
     (let indices = random_choice lib i n_epochs in
      bindE (take_trials (data epochs) indices) (\<lambda>d.
      let permutated_epochs = epochs\<lparr>data := d\<rparr> in
      bindE (JointDecorrelation_init ''evoked'') (\<lambda>jd.
      case fit lib jd permutated_epochs (Some 40) (Some 15) None None None True of
        (Inl e, jd) \<Rightarrow> Inl e
      | (Inr u, jd) \<Rightarrow>
          bindE (get_components jd permutated_epochs) (\<lambda>Y.
          bindE (assign_slab (buffer st) i (average lib Y)) (\<lambda>data'.
          case ci_var st of
            Ranks lo hi \<Rightarrow> Inl TypeError
          | Level c \<Rightarrow>
              (let ci = (((1 - c) / 2) * 100, (1 - ((1 - c) / 2)) * 100) in
               bindE (np_percentile lib (tensor_abs lib data') ci) (\<lambda>(ci_low, ci_up).
               Inr \<lparr>buffer = data', ci_var = Ranks (fst ci) (snd ci),
                    bands = Some (ci_low, ci_up)\<rparr>)))))))"

fun bootstrap_loop ::
  "'a::{zero,one,plus,times,inverse,uminus} numlib \<Rightarrow> 'a epochs \<Rightarrow> nat \<Rightarrow> nat list \<Rightarrow> 'a boot_state
     \<Rightarrow> error + 'a boot_state" where
  "bootstrap_loop lib epochs n_epochs [] st = Inr st"
| "bootstrap_loop lib epochs n_epochs (i # rest) st =
     bindE (bootstrap_body lib epochs n_epochs i st) (bootstrap_loop lib epochs n_epochs rest)"

definition bootstrap_components ::
  "'a::{zero,one,plus,times,inverse,uminus} numlib \<Rightarrow> 'a epochs \<Rightarrow> int \<Rightarrow> int \<Rightarrow> int \<Rightarrow> rat
     \<Rightarrow> error + ('a matrix \<times> 'a matrix)" where
  \<comment> \<open>\<^verbatim>\<open>bootstrap_components(epochs, n_bootstrap, keep1, keep2, ci)\<close>, lines 107 to 123;
      \<^verbatim>\<open>range(n_bootstrap)\<close> is \<open>[0..<nat n_bootstrap]\<close>, and the names of line 123 are
      bound only once the loop body has run\<close>
  "bootstrap_components lib epochs n_bootstrap keep1 keep2 ci =
     bindE (zeros n_bootstrap keep2 (dim2 (data epochs))) (\<lambda>data'.
     bindE (bootstrap_loop lib epochs (dim0 (data epochs)) [0..<nat n_bootstrap]
              \<lparr>buffer = data', ci_var = Level ci, bands = None\<rparr>) (\<lambda>st.
     case bands st of
       None \<Rightarrow> Inl UnboundLocalError
     | Some (ci_low, ci_up) \<Rightarrow> Inr (ci_low, ci_up)))"

section \<open>What the specification says\<close>

text \<open>
  The definitions of this section follow the words of the specification, not the code;
  the theorems compare the code with them.
\<close>

definition spec_flatten :: "'a tensor \<Rightarrow> 'a matrix" where
  \<comment> \<open>4.2, reshape policy: the trial tensor becomes a matrix of shape (trial * sample,
      channel), sample fastest within each trial block: row e * T + s, column c holds
      the tensor's entry [e, c, s]\<close>
  "spec_flatten d =
     Matrix (dim0 d * dim2 d) (dim1 d)
       (map (\<lambda>k. tget d ((k div dim1 d) div dim2 d) (k mod dim1 d) ((k div dim1 d) mod dim2 d))
            [0..<dim0 d * dim2 d * dim1 d])"

definition spec_unflatten :: "'a matrix \<Rightarrow> nat \<Rightarrow> nat \<Rightarrow> 'a tensor" where
  \<comment> \<open>4.3, the inverse of the flatten convention for E trials of T samples: the entry
      [e, c, s] of the tensor is the matrix's entry in row e * T + s, column c\<close>
  "spec_unflatten m E T =
     Tensor E (ncols m) T
       (map (\<lambda>k. mget m ((k div (ncols m * T)) * T + k mod T) ((k div T) mod ncols m))
            [0..<E * ncols m * T])"

definition spec_selected_trials ::
  "'a epochs \<Rightarrow> string option \<Rightarrow> string option \<Rightarrow> error + 'a tensor" where
  \<comment> \<open>4.2: the selected trials are the concatenation of the condition-A and the
      condition-B subsets\<close>
  "spec_selected_trials epochs conditionA conditionB =
     bindE (getitem epochs conditionA) (\<lambda>a.
     bindE (getitem epochs conditionB) (\<lambda>b.
     concatenate_axis0 (data a) (data b)))"

definition stage_unmixing ::
  "'a::{zero,plus,times} matrix \<times> 'a matrix \<times> 'a matrix \<Rightarrow> error + 'a matrix" where
  \<comment> \<open>4.1, step 5: the contribution P N Q of one triple to the unmixing\<close>
  "stage_unmixing t = (case t of (P, N, Q) \<Rightarrow> bindE (matmul P N) (\<lambda>PN. matmul PN Q))"

definition stage_mixing ::
  "'a::{zero,one,plus,times,inverse} matrix \<times> 'a matrix \<times> 'a matrix \<Rightarrow> error + 'a matrix" where
  \<comment> \<open>4.1, step 5: the contribution transpose(Q) diag(1 / diag N) transpose(P) of one triple to the mixing\<close>
  "stage_mixing t =
     (case t of (P, N, Q) \<Rightarrow>
        bindE (matmul (mT Q) (diag (map (\<lambda>x. 1 / x) (diagonal N)))) (\<lambda>QD. matmul QD (mT P)))"

definition extend_unmixing ::
  "'a::{zero,plus,times} matrix \<Rightarrow> 'a matrix \<times> 'a matrix \<times> 'a matrix \<Rightarrow> error + 'a matrix" where
  \<comment> \<open>4.2, second stage: unmixing = unmixing P N Q for the triple of the second stage\<close>
  "extend_unmixing U t =
     (case t of (P, N, Q) \<Rightarrow>
        bindE (bindE (matmul U P) (\<lambda>UP. matmul UP N)) (\<lambda>UPN. matmul UPN Q))"

definition extend_mixing ::
  "'a::{zero,one,plus,times,inverse} matrix \<times> 'a matrix \<times> 'a matrix \<Rightarrow> 'a matrix \<Rightarrow> error + 'a matrix" where
  \<comment> \<open>4.2, second stage: mixing = transpose(Q) diag(1 / diag N) transpose(P) mixing\<close>
  "extend_mixing t M = bindE (stage_mixing t) (\<lambda>QDP. matmul QDP M)"

definition signed_filter ::
  "'a::{zero,one,times,uminus} epochs \<Rightarrow> 'a epochs \<Rightarrow> 'a epochs \<Rightarrow> error + 'a matrix" where
  \<comment> \<open>4.2, second stage: an identity block per trial of condition A with sign +1 and
      per trial of condition B with sign -1, side by side\<close>
  "signed_filter epochs a b =
     concatenate_axis1 (tile (identity (dim2 (data epochs))) (dim0 (data a)))
                       (scale (tile (identity (dim2 (data epochs))) (dim0 (data b))) (- 1))"

definition kept :: "nat \<Rightarrow> int option \<Rightarrow> nat" where
  \<comment> \<open>how many of n eigenpairs the slice \<^verbatim>\<open>[0:keep]\<close> retains\<close>
  "kept n keep =
     (case keep of None \<Rightarrow> n | Some k \<Rightarrow> if 0 \<le> k then min (nat k) n else n - nat (- k))"

section \<open>The outcomes of the eigensolver\<close>

text \<open>
  The definitions of this section are not translations of the code either. They state
  which steps of \<^verbatim>\<open>_transform\<close> can fail, and what the arithmetic of the library
  does with a whitening factor that is not finite. The theorems on claim C3 prove that
  the code behaves so.
\<close>

definition mprod :: "'a::{zero,plus,times} matrix \<Rightarrow> 'a matrix \<Rightarrow> 'a matrix" where
  \<comment> \<open>the product that \<open>matmul\<close> returns when the inner sizes agree\<close>
  "mprod a b =
     Matrix (nrows a) (ncols b)
       (map (\<lambda>k. dot (mrow a (k div ncols b)) (mcol b (k mod ncols b))) [0..<nrows a * ncols b])"

definition select_cols :: "'a matrix \<Rightarrow> nat list \<Rightarrow> 'a matrix" where
  \<comment> \<open>the columns that \<open>take_cols\<close> returns when every index is in range\<close>
  "select_cols m idx =
     Matrix (nrows m) (length idx)
       (map (\<lambda>k. mget m (k div length idx) (idx ! (k mod length idx))) [0..<nrows m * length idx])"

definition transform_outcome ::
  "'a::{zero,one,plus,times,inverse} numlib \<Rightarrow> 'a matrix \<Rightarrow> 'a matrix \<Rightarrow> int option \<Rightarrow> int option
     \<Rightarrow> error + ('a matrix \<times> 'a matrix \<times> 'a matrix)" where
  \<comment> \<open>the eigensolver with three places to fail and no other: the first
      eigendecomposition, the product of the bias filter with the sphered data, and the
      second eigendecomposition; the keep values only enter the two slices\<close>
  "transform_outcome lib X L keep1 keep2 =
     bindE (linalg_eig lib (mprod (mT X) X)) (\<lambda>(D, P).
     let idx = slice_to (rev (argsort lib D)) keep1;
         P = select_cols P idx;
         N = diag (map (\<lambda>i. np_sqrt lib (1 / D ! i)) idx);
         Z = mprod (mprod X P) N
     in if ncols L \<noteq> nrows X then Inl ShapeMismatch
        else
          (let Zbar = mprod L Z in
           bindE (linalg_eig lib (mprod (mT Zbar) Zbar)) (\<lambda>(Dz, Q).
           Inr (P, N, select_cols Q (slice_to (rev (argsort lib Dz)) keep2)))))"

definition ieee_like ::
  "'a::{zero,one,plus,times,inverse} numlib \<Rightarrow> ('a \<Rightarrow> bool) \<Rightarrow> ('a \<Rightarrow> bool) \<Rightarrow> bool" where
  \<comment> \<open>what IEEE 754 arithmetic and numpy do with the values that are not finite (inf,
      -inf, NaN), for a predicate \<open>fin\<close> that holds of the finite values and a predicate
      \<open>nonpos\<close> that holds of the finite values d \<le> 0: a sum or a product with such an
      operand is not finite; \<^verbatim>\<open>np.sqrt(1. / d)\<close> is inf for d = 0 and NaN for d < 0;
      \<^verbatim>\<open>np.linalg.eig\<close> raises for a matrix with an entry that is not finite\<close>
  "ieee_like lib fin nonpos \<longleftrightarrow>
     (\<forall>a b. \<not> fin a \<or> \<not> fin b \<longrightarrow> \<not> fin (a + b)) \<and>
     (\<forall>a b. \<not> fin a \<or> \<not> fin b \<longrightarrow> \<not> fin (a * b)) \<and>
     (\<forall>d. nonpos d \<longrightarrow> \<not> fin (np_sqrt lib (1 / d))) \<and>
     (\<forall>m. (\<exists>i < nrows m. \<exists>j < ncols m. \<not> fin (mget m i j)) \<longrightarrow> eig_solver lib m = None)"

section \<open>A concrete library for examples\<close>

text \<open>
  The examples run the code on rational numbers with the following stand-ins for the
  library routines: an eigendecomposition of diagonal matrices (the diagonal and the unit
  vectors; it fails on any other matrix), a stable argsort, a square root that is exact
  on squares of rationals, least-squares linear detrending of each series, the mean, the
  percentile with linear interpolation, and a resampling that draws every trial once.
  The examples use inputs on which division by zero does not occur.
\<close>

definition is_diagonal :: "rat matrix \<Rightarrow> bool" where
  \<comment> \<open>every entry off the main diagonal is 0\<close>
  "is_diagonal a \<longleftrightarrow>
     (\<forall>k \<in> set [0..<nrows a * ncols a]. k div ncols a = k mod ncols a \<or> elems a ! k = 0)"

definition eig_diagonal :: "rat matrix \<Rightarrow> (rat list \<times> rat matrix) option" where
  "eig_diagonal a = (if is_diagonal a then Some (diagonal a, identity (nrows a)) else None)"

definition nat_sqrt :: "nat \<Rightarrow> nat" where
  \<comment> \<open>the integer square root, rounded down\<close>
  "nat_sqrt n = length (filter (\<lambda>k. k * k \<le> n) [1..<n + 1])"

definition sqrt_exact :: "rat \<Rightarrow> rat" where
  \<comment> \<open>the square root of a fraction of two squares; the examples that depend on its
      value apply it to such fractions only\<close>
  "sqrt_exact q =
     (case quotient_of q of
        (n, d) \<Rightarrow> if n < 0 then 0 else of_nat (nat_sqrt (nat n)) / of_nat (nat_sqrt (nat d)))"

definition stable_argsort :: "rat list \<Rightarrow> nat list" where
  "stable_argsort xs = map snd (sort_key fst (zip xs [0..<length xs]))"

definition detrend_series :: "rat list \<Rightarrow> rat list" where
  \<comment> \<open>a series minus its least-squares line over the positions 0, 1, ...; a series of
      fewer than two samples is its own line\<close>
  "detrend_series ys =
     (let n = length ys;
          xs = map of_nat [0..<n];
          xbar = sum_list xs / of_nat n;
          ybar = sum_list ys / of_nat n;
          sxx = sum_list (map (\<lambda>x. (x - xbar) * (x - xbar)) xs);
          sxy = sum_list (map2 (\<lambda>x y. (x - xbar) * (y - ybar)) xs ys)
      in if n < 2 then map (\<lambda>y. 0) ys
         else map2 (\<lambda>x y. y - (ybar + (sxy / sxx) * (x - xbar))) xs ys)"

definition detrend_linear :: "rat tensor \<Rightarrow> rat tensor" where
  "detrend_linear t =
     Tensor (dim0 t) (dim1 t) (dim2 t)
       (concat (map (\<lambda>r. detrend_series (take (dim2 t) (drop (r * dim2 t) (elems3 t))))
                    [0..<dim0 t * dim1 t]))"

definition percentile_linear :: "rat list \<Rightarrow> rat \<Rightarrow> rat" where
  "percentile_linear xs q =
     (let s = sort xs; n = length s;
          pos = q / 100 * of_nat (n - 1);
          lo = nat \<lfloor>pos\<rfloor>; hi = min (lo + 1) (n - 1)
      in if n = 0 then 0 else s ! lo + (pos - of_nat lo) * (s ! hi - s ! lo))"

definition test_lib :: "rat numlib" where
  "test_lib =
     \<lparr>eig_solver = eig_diagonal, argsort = stable_argsort, np_sqrt = sqrt_exact, np_abs = abs,
      detrend = (\<lambda>t. Inr (detrend_linear t)),
      np_mean = (\<lambda>xs. sum_list xs / of_nat (length xs)),
      percentile = percentile_linear,
      random_choice = (\<lambda>i n. [0..<n])\<rparr>"

text \<open>
  The rational numbers have no infinity: 1 / 0 is 0 there, and the library above can say
  nothing on a division by zero. The second library computes on the rationals extended
  by inf, -inf and NaN, with the IEEE 754 rules for them and no rounding (there is one
  zero, which counts as positive in a division). Its eigendecomposition is the one of
  the first library and, like \<^verbatim>\<open>np.linalg.eig\<close>, fails on a matrix with an entry that
  is not finite; its argsort puts NaN last, as numpy's does.
\<close>

datatype fl = Fin rat | PInf | NInf | NaN

text \<open>
  \<open>is_fin\<close> is \<^verbatim>\<open>np.isfinite\<close>, and \<open>fl_nonpos\<close> holds of the finite values
  d \<le> 0.
\<close>

fun is_fin :: "fl \<Rightarrow> bool" where
  "is_fin (Fin a) = True"
| "is_fin x = False"

fun fl_nonpos :: "fl \<Rightarrow> bool" where
  "fl_nonpos (Fin a) = (a \<le> 0)"
| "fl_nonpos x = False"

fun fl_neg :: "fl \<Rightarrow> fl" where
  "fl_neg (Fin a) = Fin (- a)"
| "fl_neg PInf = NInf"
| "fl_neg NInf = PInf"
| "fl_neg NaN = NaN"

fun fl_add :: "fl \<Rightarrow> fl \<Rightarrow> fl" where
  "fl_add (Fin a) (Fin b) = Fin (a + b)"
| "fl_add NaN y = NaN"
| "fl_add x NaN = NaN"
| "fl_add PInf NInf = NaN"
| "fl_add NInf PInf = NaN"
| "fl_add PInf y = PInf"
| "fl_add x PInf = PInf"
| "fl_add NInf y = NInf"
| "fl_add x NInf = NInf"

fun fl_signed_inf :: "rat \<Rightarrow> fl" where
  \<comment> \<open>inf times a finite value a, which is also a / 0\<close>
  "fl_signed_inf a = (if a = 0 then NaN else if 0 < a then PInf else NInf)"

fun fl_mul :: "fl \<Rightarrow> fl \<Rightarrow> fl" where
  "fl_mul (Fin a) (Fin b) = Fin (a * b)"
| "fl_mul NaN y = NaN"
| "fl_mul x NaN = NaN"
| "fl_mul PInf (Fin b) = fl_signed_inf b"
| "fl_mul NInf (Fin b) = fl_signed_inf (- b)"
| "fl_mul (Fin a) PInf = fl_signed_inf a"
| "fl_mul (Fin a) NInf = fl_signed_inf (- a)"
| "fl_mul PInf PInf = PInf"
| "fl_mul NInf NInf = PInf"
| "fl_mul PInf NInf = NInf"
| "fl_mul NInf PInf = NInf"

fun fl_div :: "fl \<Rightarrow> fl \<Rightarrow> fl" where
  "fl_div (Fin a) (Fin b) = (if b = 0 then fl_signed_inf a else Fin (a / b))"
| "fl_div NaN y = NaN"
| "fl_div x NaN = NaN"
| "fl_div (Fin a) PInf = Fin 0"
| "fl_div (Fin a) NInf = Fin 0"
| "fl_div PInf (Fin b) = (if 0 \<le> b then PInf else NInf)"
| "fl_div NInf (Fin b) = (if 0 \<le> b then NInf else PInf)"
| "fl_div PInf PInf = NaN"
| "fl_div PInf NInf = NaN"
| "fl_div NInf PInf = NaN"
| "fl_div NInf NInf = NaN"

fun fl_sqrt :: "fl \<Rightarrow> fl" where
  "fl_sqrt (Fin a) = (if a < 0 then NaN else Fin (sqrt_exact a))"
| "fl_sqrt PInf = PInf"
| "fl_sqrt NInf = NaN"
| "fl_sqrt NaN = NaN"

fun fl_abs :: "fl \<Rightarrow> fl" where
  "fl_abs (Fin a) = Fin (abs a)"
| "fl_abs PInf = PInf"
| "fl_abs NInf = PInf"
| "fl_abs NaN = NaN"

instantiation fl :: "{zero,one,plus,times,uminus,inverse}"
begin

definition zero_fl :: fl where "zero_fl = Fin 0"
definition one_fl :: fl where "one_fl = Fin 1"
definition plus_fl :: "fl \<Rightarrow> fl \<Rightarrow> fl" where "plus_fl = fl_add"
definition times_fl :: "fl \<Rightarrow> fl \<Rightarrow> fl" where "times_fl = fl_mul"
definition uminus_fl :: "fl \<Rightarrow> fl" where "uminus_fl = fl_neg"
definition divide_fl :: "fl \<Rightarrow> fl \<Rightarrow> fl" where "divide_fl = fl_div"
definition inverse_fl :: "fl \<Rightarrow> fl" where "inverse_fl x = fl_div (Fin 1) x"

instance ..

end

fun the_fin :: "fl \<Rightarrow> rat" where
  "the_fin (Fin a) = a"
| "the_fin x = 0"

fun fl_rank :: "fl \<Rightarrow> nat" where
  "fl_rank NInf = 0"
| "fl_rank (Fin a) = 1"
| "fl_rank PInf = 2"
| "fl_rank NaN = 3"

definition fl_argsort :: "fl list \<Rightarrow> nat list" where
  "fl_argsort xs =
     map snd (sort_key (\<lambda>p. fl_rank (fst p))
               (sort_key (\<lambda>p. the_fin (fst p)) (zip xs [0..<length xs])))"

definition fl_is_diagonal :: "fl matrix \<Rightarrow> bool" where
  "fl_is_diagonal a \<longleftrightarrow>
     (\<forall>k \<in> set [0..<nrows a * ncols a].
        if k div ncols a = k mod ncols a then is_fin (elems a ! k) else elems a ! k = Fin 0)"

definition fl_eig :: "fl matrix \<Rightarrow> (fl list \<times> fl matrix) option" where
  "fl_eig a = (if fl_is_diagonal a then Some (diagonal a, identity (nrows a)) else None)"

definition fl_detrend :: "fl tensor \<Rightarrow> fl tensor" where
  "fl_detrend t =
     Tensor (dim0 t) (dim1 t) (dim2 t)
       (concat (map (\<lambda>r. let ys = take (dim2 t) (drop (r * dim2 t) (elems3 t))
                          in if list_all is_fin ys then map Fin (detrend_series (map the_fin ys))
                             else map (\<lambda>y. NaN) ys)
                    [0..<dim0 t * dim1 t]))"

definition ieee_lib :: "fl numlib" where
  "ieee_lib =
     \<lparr>eig_solver = fl_eig, argsort = fl_argsort, np_sqrt = fl_sqrt, np_abs = fl_abs,
      detrend = (\<lambda>t. Inr (fl_detrend t)),
      np_mean = (\<lambda>xs. foldl (+) 0 xs / Fin (of_nat (length xs))),
      percentile = (\<lambda>xs q. if list_all is_fin xs then Fin (percentile_linear (map the_fin xs) q) else NaN),
      random_choice = (\<lambda>i n. [0..<n])\<rparr>"

section \<open>Example inputs\<close>

definition fresh_evoked :: "rat JointDecorrelation" where
  "fresh_evoked = \<lparr>kind = Evoked, mixing = None, unmixing = None\<rparr>"

definition fresh_difference :: "rat JointDecorrelation" where
  "fresh_difference = \<lparr>kind = Difference, mixing = None, unmixing = None\<rparr>"

definition ep_trend :: "rat epochs" where
  \<comment> \<open>one trial, one channel, the samples 0, 1, 2\<close>
  "ep_trend =
     \<lparr>data = Tensor 1 1 3 [0, 1, 2], info = \<lparr>nchan = 1, sfreq = 100\<rparr>,
      events = [(0, 0, 1)], event_id = [(''a'', 1)], tmin = 0\<rparr>"

definition ep_three :: "rat epochs" where
  \<comment> \<open>three trials of one channel and one sample: a trial of b (value 2), a trial of a
      (value 3) and a trial of c (value 6)\<close>
  "ep_three =
     \<lparr>data = Tensor 3 1 1 [2, 3, 6], info = \<lparr>nchan = 1, sfreq = 100\<rparr>,
      events = [(0, 0, 2), (10, 0, 1), (20, 0, 3)],
      event_id = [(''a'', 1), (''b'', 2), (''c'', 3)], tmin = 0\<rparr>"

definition ep_two :: "rat epochs" where
  \<comment> \<open>two trials of one channel and one sample: a trial of a (value 3), a trial of b (value 4)\<close>
  "ep_two =
     \<lparr>data = Tensor 2 1 1 [3, 4], info = \<lparr>nchan = 1, sfreq = 100\<rparr>,
      events = [(0, 0, 1), (10, 0, 2)],
      event_id = [(''a'', 1), (''b'', 2)], tmin = 0\<rparr>"

definition ep_square :: "rat epochs" where
  \<comment> \<open>one trial of two channels and two samples: channel 0 is 1, 0 and channel 1 is 0, 1\<close>
  "ep_square =
     \<lparr>data = Tensor 1 2 2 [1, 0, 0, 1], info = \<lparr>nchan = 2, sfreq = 100\<rparr>,
      events = [(0, 0, 1)], event_id = [(''a'', 1)], tmin = 0\<rparr>"

definition ep_corr :: "rat epochs" where
  \<comment> \<open>one trial of two channels and one sample, both 1: the covariance is not diagonal,
      and the eigendecomposition of the example library fails on it\<close>
  "ep_corr =
     \<lparr>data = Tensor 1 2 1 [1, 1], info = \<lparr>nchan = 2, sfreq = 100\<rparr>,
      events = [(0, 0, 1)], event_id = [(''a'', 1)], tmin = 0\<rparr>"

definition fitted_square :: "rat JointDecorrelation" where
  \<comment> \<open>the Evoked model fitted on \<open>ep_square\<close> with every parameter at its default\<close>
  "fitted_square = snd (fit test_lib fresh_evoked ep_square None None None None None True)"

definition fitted_two :: "rat JointDecorrelation" where
  \<comment> \<open>the Difference model fitted on \<open>ep_two\<close> with detrending off and the other
      parameters at their defaults\<close>
  "fitted_two = snd (fit test_lib fresh_difference ep_two None None None None None False)"

definition fitted_narrow :: "rat JointDecorrelation" where
  \<comment> \<open>the Evoked model fitted on \<open>ep_square\<close> with keep1 = 1 and keep2 = 2\<close>
  "fitted_narrow = snd (fit test_lib fresh_evoked ep_square (Some 1) (Some 2) None None None True)"

definition failed_three :: "rat JointDecorrelation" where
  \<comment> \<open>the Difference model after its only fit call, on \<open>ep_three\<close> for the labels a and b
      with detrending off\<close>
  "failed_three =
     snd (fit test_lib fresh_difference ep_three None None None (Some ''a'') (Some ''b'') False)"

definition ep_flat :: "fl epochs" where
  \<comment> \<open>one trial of two channels and two samples: channel 0 is 1, 0 and channel 1 is
      0, 0, so that the covariance of the channels has the eigenvalues 1 and 0\<close>
  "ep_flat =
     \<lparr>data = Tensor 1 2 2 [Fin 1, Fin 0, Fin 0, Fin 0], info = \<lparr>nchan = 2, sfreq = Fin 100\<rparr>,
      events = [(0, 0, 1)], event_id = [(''a'', 1)], tmin = Fin 0\<rparr>"


section \<open>Basic facts\<close>

lemma bindE_Inl [simp]: "bindE (Inl e) f = Inl e"
  by (simp add: bindE_def)

lemma bindE_Inr [simp]: "bindE (Inr x) f = f x"
  by (simp add: bindE_def)

lemma bindE_eq_Inr: "bindE m f = Inr y \<longleftrightarrow> (\<exists>x. m = Inr x \<and> f x = Inr y)"
  by (cases m) simp_all

lemma bindE_eq_Inl: "bindE m f = Inl e \<longleftrightarrow> m = Inl e \<or> (\<exists>x. m = Inr x \<and> f x = Inl e)"
  by (cases m) simp_all

lemma idx_bound: "c < C \<Longrightarrow> r < (n::nat) \<Longrightarrow> c * n + r < C * n"
proof -
  assume c: "c < C" and r: "r < n"
  have "c * n + r < c * n + n" using r by simp
  also have "\<dots> = Suc c * n" by simp
  also have "\<dots> \<le> C * n" using c by (intro mult_le_mono1) simp
  finally show ?thesis .
qed

lemma div_block: "r < (n::nat) \<Longrightarrow> (c * n + r) div n = c"
  by simp

lemma mod_block: "r < (n::nat) \<Longrightarrow> (c * n + r) mod n = r"
  by simp

lemma div_lt_of_lt_mult: "k < a * (b::nat) \<Longrightarrow> k div b < a"
  by (simp add: less_mult_imp_div_less)

lemma index_recompose:
  fixes k C T :: nat
  shows "(k div (C * T) * C + (k div T) mod C) * T + k mod T = k"
proof -
  have "k div (T * C) = (k div T) div C"
    by (rule div_mult2_eq)
  then have "k div (C * T) = (k div T) div C"
    by (simp only: mult.commute [of C T])
  then have "k div (C * T) * C + (k div T) mod C = k div T"
    by simp
  then show ?thesis by simp
qed

section \<open>The code flattens and unflattens as the specification says\<close>

lemma flatten_entry:
  assumes k: "k < dim0 d * dim2 d * dim1 d"
  shows "mget (Matrix (dim1 d) (dim0 d * dim2 d) (elems3 (transpose_102 d))) (k mod dim1 d) (k div dim1 d)
         = tget d ((k div dim1 d) div dim2 d) (k mod dim1 d) ((k div dim1 d) mod dim2 d)"
proof -
  define E C T where "E = dim0 d" and "C = dim1 d" and "T = dim2 d"
  define c r where "c = k mod C" and "r = k div C"
  from k have kk: "k < (E * T) * C" by (simp add: E_def C_def T_def)
  then have Cpos: "0 < C" by (cases C) auto
  have c: "c < C" using Cpos by (simp add: c_def)
  have r: "r < E * T" unfolding r_def using kk by (rule div_lt_of_lt_mult)
  then have Tpos: "0 < T" by (cases T) auto
  have rdiv: "r div T < E" using r by (simp add: less_mult_imp_div_less)
  have idx: "c * (E * T) + r < C * E * T"
    using idx_bound [OF c r] by (simp add: mult.assoc)
  have d1: "(c * (E * T) + r) div (E * T) = c" using r by (rule div_block)
  have d2: "(c * (E * T) + r) mod T = r mod T"
    by (metis mod_mult_self3 mult.assoc mult.commute)
  have "(c * (E * T) + r) div T = c * E + r div T"
    using Tpos by (metis div_mult_self3 mult.assoc less_numeral_extra(3))
  then have d3: "((c * (E * T) + r) div T) mod E = r div T"
    using rdiv by simp
  show ?thesis
    using idx d1 d2 d3
    by (simp add: mget_def transpose_102_def E_def [symmetric] C_def [symmetric] T_def [symmetric]
        c_def [symmetric] r_def [symmetric])
qed

lemma flatten_trials_eq: "flatten_trials d = Inr (spec_flatten d)"
proof -
  have "mT (Matrix (dim1 d) (dim0 d * dim2 d) (elems3 (transpose_102 d))) = spec_flatten d"
    unfolding mT_def spec_flatten_def
    by (simp add: flatten_entry)
  then show ?thesis
    by (simp add: flatten_trials_def reshape_2d_def transpose_102_def)
qed

lemma spec_flatten_shape [simp]:
  "nrows (spec_flatten d) = dim0 d * dim2 d" "ncols (spec_flatten d) = dim1 d"
  by (simp_all add: spec_flatten_def)

lemma spec_flatten_entry:
  assumes "e < dim0 d" "c < dim1 d" "s < dim2 d"
  shows "mget (spec_flatten d) (e * dim2 d + s) c = tget d e c s"
proof -
  have r: "e * dim2 d + s < dim0 d * dim2 d"
    using assms(1,3) by (rule idx_bound)
  have k: "(e * dim2 d + s) * dim1 d + c < dim0 d * dim2 d * dim1 d"
    using r assms(2) by (rule idx_bound)
  have "((e * dim2 d + s) * dim1 d + c) div dim1 d = e * dim2 d + s"
    using assms(2) by (rule div_block)
  moreover have "((e * dim2 d + s) * dim1 d + c) mod dim1 d = c"
    using assms(2) by (rule mod_block)
  moreover have "(e * dim2 d + s) div dim2 d = e"
    using assms(3) by (rule div_block)
  moreover have "(e * dim2 d + s) mod dim2 d = s"
    using assms(3) by (rule mod_block)
  ultimately show ?thesis
    using k by (simp add: spec_flatten_def mget_def)
qed

lemma spec_unflatten_dims [simp]:
  "dim0 (spec_unflatten m E T) = E" "dim1 (spec_unflatten m E T) = ncols m"
  "dim2 (spec_unflatten m E T) = T"
  by (simp_all add: spec_unflatten_def)

lemma spec_unflatten_entry:
  assumes "e < E" "c < ncols m" "s < T"
  shows "tget (spec_unflatten m E T) e c s = mget m (e * T + s) c"
proof -
  have ec: "e * ncols m + c < E * ncols m"
    using assms(1,2) by (rule idx_bound)
  have k: "(e * ncols m + c) * T + s < E * ncols m * T"
    using ec assms(3) by (rule idx_bound)
  have a: "((e * ncols m + c) * T + s) div T = e * ncols m + c"
    using assms(3) by (rule div_block)
  have b: "((e * ncols m + c) * T + s) mod T = s"
    using assms(3) by (rule mod_block)
  have cs: "c * T + s < ncols m * T"
    using assms(2,3) by (rule idx_bound)
  have "(e * ncols m + c) * T + s = e * (ncols m * T) + (c * T + s)"
    by (simp add: algebra_simps)
  then have c': "((e * ncols m + c) * T + s) div (ncols m * T) = e"
    using cs by (simp only: div_block)
  have d: "(e * ncols m + c) mod ncols m = c"
    using assms(2) by (rule mod_block)
  show ?thesis
    using k a b c' d by (simp add: spec_unflatten_def tget_def)
qed

lemma unflatten_entry:
  assumes k: "k < E * ncols X * T" and n: "nrows X = E * T"
  shows "tget (Tensor (ncols X) E T (elems (mT X))) ((k div T) mod ncols X) (k div (ncols X * T)) (k mod T)
         = mget X ((k div (ncols X * T)) * T + k mod T) ((k div T) mod ncols X)"
proof -
  define K where "K = ncols X"
  define e c s where "e = k div (K * T)" and "c = (k div T) mod K" and "s = k mod T"
  from k have kk: "k < E * (K * T)" by (simp add: K_def mult.assoc)
  then have KT: "0 < K * T" by (cases "K * T") auto
  then have Kpos: "0 < K" and Tpos: "0 < T" by auto
  have e: "e < E" unfolding e_def using kk by (simp add: less_mult_imp_div_less mult.commute)
  have c: "c < K" unfolding c_def using Kpos by simp
  have s: "s < T" unfolding s_def using Tpos by simp
  have es: "e * T + s < E * T" using e s by (rule idx_bound)
  have idx: "c * (E * T) + (e * T + s) < K * (E * T)" using c es by (rule idx_bound)
  have rw: "(c * E + e) * T + s = c * (E * T) + (e * T + s)" by (simp add: algebra_simps)
  have m: "(c * (E * T) + (e * T + s)) mod (E * T) = e * T + s" using es by (rule mod_block)
  have dv: "(c * (E * T) + (e * T + s)) div (E * T) = c" using es by (rule div_block)
  have "tget (Tensor K E T (elems (mT X))) c e s = elems (mT X) ! (c * (E * T) + (e * T + s))"
    by (simp only: tget_def tensor.sel rw)
  also have "\<dots> = mget X ((c * (E * T) + (e * T + s)) mod (E * T))
                           ((c * (E * T) + (e * T + s)) div (E * T))"
    using idx by (simp add: mT_def n K_def)
  also have "\<dots> = mget X (e * T + s) c"
    by (simp only: m dv)
  finally show ?thesis
    by (simp only: K_def [symmetric] e_def [symmetric] c_def [symmetric] s_def [symmetric])
qed

lemma unflatten_eq:
  assumes n: "nrows X = E * T" and pos: "0 < E" "0 < T"
  shows "bindE (reshape_infer (mT X) E T) (\<lambda>Y. Inr (transpose_102 Y)) = Inr (spec_unflatten X E T)"
proof -
  have sz: "nrows (mT X) * ncols (mT X) = ncols X * (E * T)"
    by (simp add: mT_def n)
  have r: "reshape_infer (mT X) E T = Inr (Tensor (ncols X) E T (elems (mT X)))"
    using pos by (simp add: reshape_infer_def sz)
  have "transpose_102 (Tensor (ncols X) E T (elems (mT X))) = spec_unflatten X E T"
    unfolding transpose_102_def spec_unflatten_def
    using n by (simp add: unflatten_entry)
  with r show ?thesis by simp
qed

lemma unflatten_D:
  assumes "nrows X = E * T" "0 < E" "0 < T"
  shows "\<exists>R. reshape_infer (mT X) E T = Inr R \<and> transpose_102 R = spec_unflatten X E T"
  using unflatten_eq [OF assms] by (auto simp: bindE_eq_Inr)

text \<open>The two conventions of the specification are inverse to each other.\<close>

lemma spec_roundtrip:
  assumes "wf_tensor d"
  shows "spec_unflatten (spec_flatten d) (dim0 d) (dim2 d) = d"
proof -
  let ?E = "dim0 d" and ?C = "dim1 d" and ?T = "dim2 d"
  have "map (\<lambda>k. mget (spec_flatten d) ((k div (?C * ?T)) * ?T + k mod ?T) ((k div ?T) mod ?C))
            [0..<?E * ?C * ?T] = elems3 d"
  proof (rule nth_equalityI)
    show "length (map (\<lambda>k. mget (spec_flatten d) ((k div (?C * ?T)) * ?T + k mod ?T)
                              ((k div ?T) mod ?C)) [0..<?E * ?C * ?T]) = length (elems3 d)"
      using assms by (simp add: wf_tensor_def)
  next
    fix k
    assume "k < length (map (\<lambda>k. mget (spec_flatten d) ((k div (?C * ?T)) * ?T + k mod ?T)
                              ((k div ?T) mod ?C)) [0..<?E * ?C * ?T])"
    then have k: "k < ?E * (?C * ?T)" by (simp add: mult.assoc)
    then have CT: "0 < ?C * ?T" by (cases "?C * ?T") auto
    then have C: "0 < ?C" and T: "0 < ?T" by auto
    have e: "k div (?C * ?T) < ?E" using k by (simp add: less_mult_imp_div_less mult.commute)
    have c: "(k div ?T) mod ?C < ?C" using C by simp
    have s: "k mod ?T < ?T" using T by simp
    have "mget (spec_flatten d) ((k div (?C * ?T)) * ?T + k mod ?T) ((k div ?T) mod ?C)
          = tget d (k div (?C * ?T)) ((k div ?T) mod ?C) (k mod ?T)"
      using e c s by (rule spec_flatten_entry)
    also have "\<dots> = elems3 d ! k"
      by (simp only: tget_def index_recompose)
    finally show "map (\<lambda>k. mget (spec_flatten d) ((k div (?C * ?T)) * ?T + k mod ?T)
                         ((k div ?T) mod ?C)) [0..<?E * ?C * ?T] ! k = elems3 d ! k"
      using k by (simp add: mult.assoc)
  qed
  then show ?thesis
    by (cases d) (simp add: spec_unflatten_def)
qed

section \<open>The shapes of the array operations\<close>

lemma matmul_Inr:
  "matmul a b = Inr c \<Longrightarrow> ncols a = nrows b \<and> nrows c = nrows a \<and> ncols c = ncols b"
  by (auto simp: matmul_def split: if_splits)

lemma matmul_conform:
  "ncols a = nrows b \<Longrightarrow> \<exists>c. matmul a b = Inr c \<and> nrows c = nrows a \<and> ncols c = ncols b"
  by (simp add: matmul_def)

lemma mT_shape [simp]: "nrows (mT m) = ncols m" "ncols (mT m) = nrows m"
  by (simp_all add: mT_def)

lemma diag_shape [simp]: "nrows (diag v) = length v" "ncols (diag v) = length v"
  by (simp_all add: diag_def)

lemma length_diagonal [simp]: "length (diagonal m) = min (nrows m) (ncols m)"
  by (simp add: diagonal_def)

lemma tile_shape [simp]: "nrows (tile m reps) = nrows m" "ncols (tile m reps) = ncols m * reps"
  by (simp_all add: tile_def)

lemma identity_shape [simp]: "nrows (identity n) = n" "ncols (identity n) = n"
  by (simp_all add: identity_def)

lemma take_idx_Inr:
  "\<forall>i \<in> set idx. i < length v \<Longrightarrow> \<exists>r. take_idx v idx = Inr r \<and> length r = length idx"
  by (simp add: take_idx_def)

lemma take_cols_Inr:
  "\<forall>j \<in> set idx. j < ncols m \<Longrightarrow>
     \<exists>r. take_cols m idx = Inr r \<and> nrows r = nrows m \<and> ncols r = length idx"
  by (simp add: take_cols_def)

lemma take_idx_D: "take_idx v idx = Inr r \<Longrightarrow> length r = length idx"
  by (auto simp: take_idx_def split: if_splits)

lemma take_cols_D: "take_cols m idx = Inr r \<Longrightarrow> nrows r = nrows m \<and> ncols r = length idx"
  by (auto simp: take_cols_def split: if_splits)

lemma length_slice_to: "length (slice_to xs k) = kept (length xs) k"
  by (auto simp: slice_to_def kept_def split: option.splits)

lemma set_slice_to: "set (slice_to xs k) \<subseteq> set xs"
  by (auto simp: slice_to_def split: option.splits dest: in_set_takeD)

section \<open>The shapes of a reduction stage\<close>

lemma linalg_eig_cases:
  assumes "lib_ok lib"
  shows "linalg_eig lib a = Inl LinAlgError \<or>
         (\<exists>w v. linalg_eig lib a = Inr (w, v) \<and> nrows a = ncols a \<and> length w = nrows a \<and>
                nrows v = nrows a \<and> ncols v = nrows a)"
proof (cases "nrows a \<noteq> ncols a \<or> eig_solver lib a = None")
  case True
  then show ?thesis by (auto simp: linalg_eig_def)
next
  case False
  then obtain w v where s: "eig_solver lib a = Some (w, v)" and sq: "nrows a = ncols a"
    by auto
  from assms s sq have "length w = nrows a \<and> nrows v = nrows a \<and> ncols v = nrows a"
    unfolding lib_ok_def eig_ok_def by blast
  with s sq show ?thesis by (simp add: linalg_eig_def)
qed

lemma retained_indices:
  assumes "lib_ok lib"
  shows "length (slice_to (rev (argsort lib D)) k) = kept (length D) k"
    and "\<forall>i \<in> set (slice_to (rev (argsort lib D)) k). i < length D"
proof -
  from assms have a: "length (argsort lib D) = length D" "set (argsort lib D) = {0..<length D}"
    unfolding lib_ok_def argsort_ok_def by auto
  show "length (slice_to (rev (argsort lib D)) k) = kept (length D) k"
    by (simp add: length_slice_to a(1))
  show "\<forall>i \<in> set (slice_to (rev (argsort lib D)) k). i < length D"
    using set_slice_to [of "rev (argsort lib D)" k] a(2) by auto
qed

lemma transform_cases:
  assumes ok: "lib_ok lib"
  shows "(\<exists>e. transform lib X L k1 k2 = Inl e \<and>
              (e = LinAlgError \<or> e = ShapeMismatch \<and> ncols L \<noteq> nrows X)) \<or>
         (\<exists>P N Q. transform lib X L k1 k2 = Inr (P, N, Q) \<and>
              nrows P = ncols X \<and> ncols P = kept (ncols X) k1 \<and>
              nrows N = ncols P \<and> ncols N = ncols P \<and>
              nrows Q = ncols P \<and> ncols Q = kept (ncols P) k2)"
proof -
  obtain C0 where C0: "matmul (mT X) X = Inr C0" "nrows C0 = ncols X" "ncols C0 = ncols X"
    using matmul_conform [of "mT X" X] by auto
  from linalg_eig_cases [OF ok, of C0]
  show ?thesis
  proof (elim disjE exE conjE)
    assume "linalg_eig lib C0 = Inl LinAlgError"
    then have "transform lib X L k1 k2 = Inl LinAlgError"
      by (simp add: transform_def C0(1))
    then show ?thesis by simp
  next
    fix w v
    assume e1: "linalg_eig lib C0 = Inr (w, v)" and w: "length w = nrows C0"
      and v: "nrows v = nrows C0" "ncols v = nrows C0"
    let ?idx = "slice_to (rev (argsort lib w)) k1"
    have il: "length ?idx = kept (ncols X) k1" and ib: "\<forall>i \<in> set ?idx. i < length w"
      using retained_indices [OF ok, of w k1] w C0(2) by auto
    obtain D where D: "take_idx w ?idx = Inr D" "length D = length ?idx"
      using take_idx_Inr [OF ib] by auto
    have ib': "\<forall>j \<in> set ?idx. j < ncols v" using ib w v by simp
    obtain P where P: "take_cols v ?idx = Inr P" "nrows P = nrows v" "ncols P = length ?idx"
      using take_cols_Inr [OF ib'] by auto
    let ?N = "diag (map (\<lambda>d. np_sqrt lib (1 / d)) D)"
    have N: "nrows ?N = ncols P" "ncols ?N = ncols P"
      by (simp_all add: D(2) P(3))
    obtain XP where XP: "matmul X P = Inr XP" "nrows XP = nrows X" "ncols XP = ncols P"
      using matmul_conform [of X P] P(2) v(1) C0(2) by auto
    obtain Z where Z: "matmul XP ?N = Inr Z" "nrows Z = nrows X" "ncols Z = ncols P"
      using matmul_conform [of XP ?N] XP(2,3) N by auto
    have head: "transform lib X L k1 k2 =
        bindE (matmul L Z) (\<lambda>Zbar.
        bindE (matmul (mT Zbar) Zbar) (\<lambda>C1.
        bindE (linalg_eig lib C1) (\<lambda>(Dz, Q).
        bindE (take_idx Dz (slice_to (rev (argsort lib Dz)) k2)) (\<lambda>Dz'.
        bindE (take_cols Q (slice_to (rev (argsort lib Dz)) k2)) (\<lambda>Q.
        Inr (P, ?N, Q))))))"
      by (simp add: transform_def C0(1) e1 Let_def D(1) P(1) XP(1) Z(1))
    show ?thesis
    proof (cases "ncols L = nrows X")
      case False
      then have "matmul L Z = Inl ShapeMismatch" by (simp add: matmul_def Z(2))
      with head False show ?thesis by simp
    next
      case True
      obtain Zbar where Zbar: "matmul L Z = Inr Zbar" "ncols Zbar = ncols P"
        using matmul_conform [of L Z] True Z(2,3) by auto
      obtain C1 where C1: "matmul (mT Zbar) Zbar = Inr C1" "nrows C1 = ncols P" "ncols C1 = ncols P"
        using matmul_conform [of "mT Zbar" Zbar] Zbar(2) by auto
      from linalg_eig_cases [OF ok, of C1]
      show ?thesis
      proof (elim disjE exE conjE)
        assume "linalg_eig lib C1 = Inl LinAlgError"
        with head Zbar(1) C1(1) show ?thesis by simp
      next
        fix w2 v2
        assume e2: "linalg_eig lib C1 = Inr (w2, v2)" and w2: "length w2 = nrows C1"
          and v2: "nrows v2 = nrows C1" "ncols v2 = nrows C1"
        let ?idx2 = "slice_to (rev (argsort lib w2)) k2"
        have il2: "length ?idx2 = kept (ncols P) k2" and ib2: "\<forall>i \<in> set ?idx2. i < length w2"
          using retained_indices [OF ok, of w2 k2] w2 C1(2) by auto
        obtain D2 where D2: "take_idx w2 ?idx2 = Inr D2"
          using take_idx_Inr [OF ib2] by auto
        have ib2': "\<forall>j \<in> set ?idx2. j < ncols v2" using ib2 w2 v2 by simp
        obtain Q where Q: "take_cols v2 ?idx2 = Inr Q" "nrows Q = nrows v2" "ncols Q = length ?idx2"
          using take_cols_Inr [OF ib2'] by auto
        have "transform lib X L k1 k2 = Inr (P, ?N, Q)"
          by (simp add: head Zbar(1) C1(1) e2 D2 Q(1))
        moreover have "nrows P = ncols X" using P(2) v(1) C0(2) by simp
        moreover have "ncols P = kept (ncols X) k1" using P(3) il by simp
        moreover have "nrows Q = ncols P" using Q(2) v2(1) C1(2) by simp
        moreover have "ncols Q = kept (ncols P) k2" using Q(3) il2 by simp
        ultimately show ?thesis using N by blast
      qed
    qed
  qed
qed

lemma transform_Inr_shapes:
  assumes "transform lib X L k1 k2 = Inr (P, N, Q)"
  shows "nrows P = ncols X \<and> nrows N = ncols P \<and> ncols N = ncols P"
proof -
  from assms obtain C0 w v D XP Z where
    "take_idx w (slice_to (rev (argsort lib w)) k1) = Inr D"
    and P: "take_cols v (slice_to (rev (argsort lib w)) k1) = Inr P"
    and XP: "matmul X P = Inr XP"
    and Z: "matmul XP (diag (map (\<lambda>d. np_sqrt lib (1 / d)) D)) = Inr Z"
    and N: "N = diag (map (\<lambda>d. np_sqrt lib (1 / d)) D)"
    by (auto simp: transform_def Let_def bindE_eq_Inr split: prod.splits)
  from matmul_Inr [OF XP] matmul_Inr [OF Z] N show ?thesis by simp
qed

lemma transform_Inr_kept:
  assumes ok: "lib_ok lib" and T: "transform lib X L k1 k2 = Inr (P, N, Q)"
  shows "ncols P = kept (ncols X) k1 \<and> ncols Q = kept (kept (ncols X) k1) k2"
  using transform_cases [OF ok, of X L k1 k2] T by auto

lemma stage_unmixing_D:
  assumes "stage_unmixing (P, N, Q) = Inr U"
  shows "ncols P = nrows N \<and> ncols N = nrows Q \<and> nrows U = nrows P \<and> ncols U = ncols Q"
proof -
  from assms obtain PN where "matmul P N = Inr PN" "matmul PN Q = Inr U"
    by (auto simp: stage_unmixing_def bindE_eq_Inr)
  then show ?thesis by (auto dest!: matmul_Inr)
qed

lemma stage_mixing_conform:
  assumes "nrows N = ncols P" "ncols N = ncols P" "nrows Q = ncols P"
  shows "\<exists>M. stage_mixing (P, N, Q) = Inr M \<and> nrows M = ncols Q \<and> ncols M = nrows P"
proof -
  obtain QD where QD: "matmul (mT Q) (diag (map (\<lambda>x. 1 / x) (diagonal N))) = Inr QD"
      "nrows QD = ncols Q" "ncols QD = ncols P"
    using matmul_conform [of "mT Q" "diag (map (\<lambda>x. 1 / x) (diagonal N))"] assms by auto
  obtain M where "matmul QD (mT P) = Inr M" "nrows M = ncols Q" "ncols M = nrows P"
    using matmul_conform [of QD "mT P"] QD(2,3) by auto
  with QD(1) show ?thesis by (auto simp: stage_mixing_def)
qed

lemma stage_mixing_D:
  assumes "stage_mixing (P, N, Q) = Inr S"
  shows "nrows S = ncols Q \<and> ncols S = nrows P"
proof -
  from assms obtain QD where "matmul (mT Q) (diag (map (\<lambda>x. 1 / x) (diagonal N))) = Inr QD"
      "matmul QD (mT P) = Inr S"
    by (auto simp: stage_mixing_def bindE_eq_Inr)
  then show ?thesis by (auto dest!: matmul_Inr)
qed

lemma stage_pair:
  assumes T: "transform lib X L k1 k2 = Inr (P, N, Q)" and U: "stage_unmixing (P, N, Q) = Inr U"
  shows "\<exists>M. stage_mixing (P, N, Q) = Inr M \<and> nrows U = ncols X \<and> ncols U = ncols Q \<and>
              nrows M = ncols Q \<and> ncols M = ncols X"
proof -
  from transform_Inr_shapes [OF T]
  have s: "nrows P = ncols X" "nrows N = ncols P" "ncols N = ncols P" by auto
  from stage_unmixing_D [OF U]
  have u: "ncols N = nrows Q" "nrows U = nrows P" "ncols U = ncols Q" by auto
  from stage_mixing_conform [of N P Q] s u
  obtain M where "stage_mixing (P, N, Q) = Inr M" "nrows M = ncols Q" "ncols M = nrows P" by auto
  with s u show ?thesis by auto
qed

lemma extend_unmixing_D:
  assumes "extend_unmixing U1 (P, N, Q) = Inr U"
  shows "ncols U1 = nrows P \<and> ncols N = nrows Q \<and> nrows U = nrows U1 \<and> ncols U = ncols Q"
proof -
  from assms obtain UP UPN where "matmul U1 P = Inr UP" "matmul UP N = Inr UPN" "matmul UPN Q = Inr U"
    by (auto simp: extend_unmixing_def bindE_eq_Inr)
  then show ?thesis by (auto dest!: matmul_Inr)
qed

lemma extend_mixing_D:
  assumes "extend_mixing (P, N, Q) M1 = Inr M"
  shows "nrows M = ncols Q \<and> ncols M = ncols M1"
proof -
  from assms obtain S where S: "stage_mixing (P, N, Q) = Inr S" "matmul S M1 = Inr M"
    by (auto simp: extend_mixing_def bindE_eq_Inr)
  from stage_mixing_D [OF S(1)] matmul_Inr [OF S(2)] show ?thesis by simp
qed

section \<open>The eigensolver fails in three places only\<close>

lemma matmul_mprod:
  "matmul a b = (if ncols a \<noteq> nrows b then Inl ShapeMismatch else Inr (mprod a b))"
  by (simp add: matmul_def mprod_def)

lemma mprod_shape [simp]: "nrows (mprod a b) = nrows a" "ncols (mprod a b) = ncols b"
  by (simp_all add: mprod_def)

lemma select_cols_shape [simp]: "nrows (select_cols m idx) = nrows m" "ncols (select_cols m idx) = length idx"
  by (simp_all add: select_cols_def)

lemma take_cols_select:
  "\<forall>j \<in> set idx. j < ncols m \<Longrightarrow> take_cols m idx = Inr (select_cols m idx)"
  by (simp add: take_cols_def select_cols_def)

lemma take_idx_map:
  "\<forall>i \<in> set idx. i < length v \<Longrightarrow> take_idx v idx = Inr (map (\<lambda>i. v ! i) idx)"
  by (simp add: take_idx_def)

lemma linalg_eig_Inr_D:
  assumes "lib_ok lib" "linalg_eig lib a = Inr (w, v)"
  shows "nrows a = ncols a \<and> length w = nrows a \<and> nrows v = nrows a \<and> ncols v = nrows a"
  using linalg_eig_cases [OF assms(1), of a] assms(2) by auto

lemma stage_indices:
  assumes ok: "lib_ok lib" and e: "linalg_eig lib a = Inr (w, v)"
  shows "take_idx w (slice_to (rev (argsort lib w)) k) = Inr (map (\<lambda>i. w ! i) (slice_to (rev (argsort lib w)) k))"
    and "take_cols v (slice_to (rev (argsort lib w)) k) = Inr (select_cols v (slice_to (rev (argsort lib w)) k))"
    and "length (slice_to (rev (argsort lib w)) k) = kept (nrows a) k"
proof -
  from linalg_eig_Inr_D [OF ok e]
  have s: "length w = nrows a" "ncols v = nrows a" by simp_all
  from retained_indices [OF ok, of w k]
  have l: "length (slice_to (rev (argsort lib w)) k) = kept (length w) k"
    and b: "\<forall>i \<in> set (slice_to (rev (argsort lib w)) k). i < length w" by simp_all
  from b show "take_idx w (slice_to (rev (argsort lib w)) k) = Inr (map (\<lambda>i. w ! i) (slice_to (rev (argsort lib w)) k))"
    by (rule take_idx_map)
  from b s have "\<forall>j \<in> set (slice_to (rev (argsort lib w)) k). j < ncols v" by simp
  then show "take_cols v (slice_to (rev (argsort lib w)) k) = Inr (select_cols v (slice_to (rev (argsort lib w)) k))"
    by (rule take_cols_select)
  from l s show "length (slice_to (rev (argsort lib w)) k) = kept (nrows a) k" by simp
qed

lemma transform_eq_outcome:
  assumes ok: "lib_ok lib"
  shows "transform lib X L keep1 keep2 = transform_outcome lib X L keep1 keep2"
proof (cases "linalg_eig lib (mprod (mT X) X)")
  case (Inl e)
  then show ?thesis by (simp add: transform_def transform_outcome_def matmul_mprod)
next
  case (Inr r)
  obtain w v where r: "r = (w, v)" by (cases r) auto
  note e1 = Inr [unfolded r]
  let ?idx = "slice_to (rev (argsort lib w)) keep1"
  let ?P = "select_cols v ?idx"
  let ?N = "diag (map (\<lambda>i. np_sqrt lib (1 / w ! i)) ?idx)"
  let ?Z = "mprod (mprod X ?P) ?N"
  from linalg_eig_Inr_D [OF ok e1] have v: "nrows v = ncols X" by simp
  note i1 = stage_indices [OF ok e1, of keep1]
  have N: "map ((\<lambda>d. np_sqrt lib (1 / d)) \<circ> (!) w) ?idx = map (\<lambda>i. np_sqrt lib (1 / w ! i)) ?idx"
    by (simp add: comp_def)
  have head: "transform lib X L keep1 keep2 =
        bindE (matmul L ?Z) (\<lambda>Zbar.
        bindE (matmul (mT Zbar) Zbar) (\<lambda>C1.
        bindE (linalg_eig lib C1) (\<lambda>(Dz, Q).
        bindE (take_idx Dz (slice_to (rev (argsort lib Dz)) keep2)) (\<lambda>Dz'.
        bindE (take_cols Q (slice_to (rev (argsort lib Dz)) keep2)) (\<lambda>Q.
        Inr (?P, ?N, Q))))))"
    by (simp add: transform_def matmul_mprod e1 Let_def i1(1,2) N v)
  show ?thesis
  proof (cases "ncols L = nrows X")
    case False
    then show ?thesis by (simp add: head transform_outcome_def e1 Let_def matmul_mprod)
  next
    case True
    let ?Zbar = "mprod L ?Z"
    show ?thesis
    proof (cases "linalg_eig lib (mprod (mT ?Zbar) ?Zbar)")
      case (Inl e)
      then show ?thesis by (simp add: head transform_outcome_def e1 Let_def matmul_mprod True)
    next
      case (Inr r2)
      obtain w2 v2 where r2: "r2 = (w2, v2)" by (cases r2) auto
      note e2 = Inr [unfolded r2]
      note i2 = stage_indices [OF ok e2, of keep2]
      show ?thesis
        by (simp add: head transform_outcome_def e1 e2 Let_def matmul_mprod True i2(1,2))
    qed
  qed
qed

lemma argsort_length: "lib_ok lib \<Longrightarrow> length (argsort lib xs) = length xs"
  by (simp add: lib_ok_def argsort_ok_def)

lemma transform_clip1:
  assumes ok: "lib_ok lib" and k: "int (ncols X) \<le> k"
  shows "transform lib X L (Some k) keep2 = transform lib X L None keep2"
proof (cases "linalg_eig lib (mprod (mT X) X)")
  case (Inl e)
  then show ?thesis by (simp add: transform_eq_outcome [OF ok] transform_outcome_def)
next
  case (Inr r)
  obtain w v where r: "r = (w, v)" by (cases r) auto
  note e1 = Inr [unfolded r]
  from linalg_eig_Inr_D [OF ok e1] have "length w = ncols X" by simp
  with k have "slice_to (rev (argsort lib w)) (Some k) = slice_to (rev (argsort lib w)) None"
    by (simp add: slice_to_def argsort_length [OF ok])
  then show ?thesis by (simp add: transform_eq_outcome [OF ok] transform_outcome_def e1)
qed

lemma transform_clip2:
  assumes ok: "lib_ok lib" and k: "int (kept (ncols X) keep1) \<le> k"
  shows "transform lib X L keep1 (Some k) = transform lib X L keep1 None"
proof (cases "linalg_eig lib (mprod (mT X) X)")
  case (Inl e)
  then show ?thesis by (simp add: transform_eq_outcome [OF ok] transform_outcome_def)
next
  case (Inr r)
  obtain w v where r: "r = (w, v)" by (cases r) auto
  note e1 = Inr [unfolded r]
  let ?idx = "slice_to (rev (argsort lib w)) keep1"
  let ?Z = "mprod (mprod X (select_cols v ?idx)) (diag (map (\<lambda>i. np_sqrt lib (1 / w ! i)) ?idx))"
  let ?C1 = "mprod (mT (mprod L ?Z)) (mprod L ?Z)"
  from stage_indices(3) [OF ok e1, of keep1] have l: "length ?idx = kept (ncols X) keep1" by simp
  show ?thesis
  proof (cases "linalg_eig lib ?C1")
    case (Inl e)
    then show ?thesis by (simp add: transform_eq_outcome [OF ok] transform_outcome_def e1 Let_def)
  next
    case (Inr r2)
    obtain w2 v2 where r2: "r2 = (w2, v2)" by (cases r2) auto
    note e2 = Inr [unfolded r2]
    from linalg_eig_Inr_D [OF ok e2] l have "length w2 = kept (ncols X) keep1" by simp
    with k have "slice_to (rev (argsort lib w2)) (Some k) = slice_to (rev (argsort lib w2)) None"
      by (simp add: slice_to_def argsort_length [OF ok])
    then show ?thesis by (simp add: transform_eq_outcome [OF ok] transform_outcome_def e1 e2 Let_def)
  qed
qed


lemma transform_clip:
  assumes ok: "lib_ok lib" and a: "int (ncols X) \<le> a" "int (ncols X) \<le> a'"
    and b: "b = b' \<or> (\<exists>k k'. b = Some k \<and> b' = Some k' \<and> int (ncols X) \<le> k \<and> int (ncols X) \<le> k')"
  shows "transform lib X L (Some a) b = transform lib X L (Some a') b'"
proof -
  have 1: "transform lib X L (Some a) b = transform lib X L None b"
    and 2: "transform lib X L (Some a') b' = transform lib X L None b'"
    using transform_clip1 [OF ok] a by blast+
  from b have "transform lib X L None b = transform lib X L None b'"
  proof
    assume "b = b'" then show ?thesis by simp
  next
    assume "\<exists>k k'. b = Some k \<and> b' = Some k' \<and> int (ncols X) \<le> k \<and> int (ncols X) \<le> k'"
    then obtain k k' where k: "b = Some k" "b' = Some k'" "int (ncols X) \<le> k" "int (ncols X) \<le> k'"
      by blast
    have "kept (ncols X) None = ncols X" by (simp add: kept_def)
    with k(3,4) transform_clip2 [OF ok, of X None]
    have "transform lib X L None (Some k) = transform lib X L None None"
      "transform lib X L None (Some k') = transform lib X L None None"
      by simp_all
    with k(1,2) show ?thesis by simp
  qed
  with 1 2 show ?thesis by simp
qed

section \<open>Values that are not finite\<close>

lemma foldl_not_finite:
  assumes add: "\<And>a b. \<not> fin a \<or> \<not> fin b \<Longrightarrow> \<not> fin (a + b)"
  shows "\<not> fin acc \<or> (\<exists>z \<in> set zs. \<not> fin z) \<Longrightarrow> \<not> fin (foldl (+) acc zs)"
proof (induction zs arbitrary: acc)
  case Nil
  then show ?case by simp
next
  case (Cons z zs)
  from Cons.prems have "\<not> fin (acc + z) \<or> (\<exists>z \<in> set zs. \<not> fin z)"
    using add [of acc z] by auto
  from Cons.IH [OF this] show ?case by simp
qed

lemma dot_not_finite:
  assumes add: "\<And>a b. \<not> fin a \<or> \<not> fin b \<Longrightarrow> \<not> fin (a + b)"
    and mul: "\<And>a b. \<not> fin a \<or> \<not> fin b \<Longrightarrow> \<not> fin (a * b)"
    and k: "k < length xs" "length xs = length ys" and n: "\<not> fin (ys ! k)"
  shows "\<not> fin (dot xs ys)"
proof -
  have "map2 (*) xs ys ! k = xs ! k * ys ! k" using k by simp
  moreover have "k < length (map2 (*) xs ys)" using k by simp
  ultimately have "xs ! k * ys ! k \<in> set (map2 (*) xs ys)"
    by (metis nth_mem)
  moreover have "\<not> fin (xs ! k * ys ! k)" using mul n by blast
  ultimately have "\<exists>z \<in> set (map2 (*) xs ys). \<not> fin z" by blast
  then show ?thesis
    unfolding dot_def using foldl_not_finite [of fin 0 "map2 (*) xs ys"] add by blast
qed

lemma mget_mprod:
  assumes "i < nrows a" "j < ncols b"
  shows "mget (mprod a b) i j = dot (mrow a i) (mcol b j)"
proof -
  from assms have b: "i * ncols b + j < nrows a * ncols b" by (rule idx_bound)
  have "mget (mprod a b) i j =
      (map (\<lambda>k. dot (mrow a (k div ncols b)) (mcol b (k mod ncols b))) [0..<nrows a * ncols b])
        ! (i * ncols b + j)"
    by (simp add: mget_def mprod_def)
  also have "\<dots> = dot (mrow a ((i * ncols b + j) div ncols b)) (mcol b ((i * ncols b + j) mod ncols b))"
    using b by simp
  also have "\<dots> = dot (mrow a i) (mcol b j)"
    using assms(2) by simp
  finally show ?thesis .
qed

lemma mprod_not_finite:
  assumes add: "\<And>a b. \<not> fin a \<or> \<not> fin b \<Longrightarrow> \<not> fin (a + b)"
    and mul: "\<And>a b. \<not> fin a \<or> \<not> fin b \<Longrightarrow> \<not> fin (a * b)"
    and c: "ncols a = nrows b" and i: "i < nrows a" and j: "j < ncols b" and k: "k < nrows b"
    and n: "\<not> fin (mget b k j)"
  shows "\<not> fin (mget (mprod a b) i j)"
proof -
  have "\<not> fin (dot (mrow a i) (mcol b j))"
  proof (rule dot_not_finite [of fin k])
    show "k < length (mrow a i)" using k c by (simp add: mrow_def)
    show "length (mrow a i) = length (mcol b j)" using c by (simp add: mrow_def mcol_def)
    show "\<not> fin (mcol b j ! k)" using n k by (simp add: mcol_def)
  qed (use add mul in blast)+
  with mget_mprod [OF i j] show ?thesis by simp
qed

lemma mget_diag: "p < length v \<Longrightarrow> mget (diag v) p p = v ! p"
proof -
  assume p: "p < length v"
  then have b: "p * length v + p < length v * length v" by (rule idx_bound [OF p])
  have "mget (diag v) p p =
      (map (\<lambda>k. if k div length v = k mod length v then v ! (k div length v) else 0)
           [0..<length v * length v]) ! (p * length v + p)"
    by (simp add: mget_def diag_def)
  also have "\<dots> = v ! p" using b p by (simp add: div_block mod_block)
  finally show ?thesis .
qed

lemma transform_not_finite:
  assumes ok: "lib_ok lib" and ie: "ieee_like lib fin nonpos"
    and e1: "linalg_eig lib (mprod (mT X) X) = Inr (D, P0)"
    and j: "j \<in> set (slice_to (rev (argsort lib D)) keep1)" and d: "nonpos (D ! j)"
    and x: "0 < nrows X" and l: "0 < nrows L"
  shows "transform lib X L keep1 keep2 = Inl (if ncols L = nrows X then LinAlgError else ShapeMismatch)"
proof (cases "ncols L = nrows X")
  case False
  then show ?thesis by (simp add: transform_eq_outcome [OF ok] transform_outcome_def e1 Let_def)
next
  case True
  from ie have add: "\<And>a b. \<not> fin a \<or> \<not> fin b \<Longrightarrow> \<not> fin (a + b)"
    and mul: "\<And>a b. \<not> fin a \<or> \<not> fin b \<Longrightarrow> \<not> fin (a * b)"
    and sq: "\<And>d. nonpos d \<Longrightarrow> \<not> fin (np_sqrt lib (1 / d))"
    and eg: "\<And>m i j. i < nrows m \<Longrightarrow> j < ncols m \<Longrightarrow> \<not> fin (mget m i j) \<Longrightarrow> eig_solver lib m = None"
    unfolding ieee_like_def by blast+
  let ?idx = "slice_to (rev (argsort lib D)) keep1"
  let ?P = "select_cols P0 ?idx"
  let ?N = "diag (map (\<lambda>i. np_sqrt lib (1 / D ! i)) ?idx)"
  let ?Z = "mprod (mprod X ?P) ?N"
  let ?Zbar = "mprod L ?Z"
  let ?C1 = "mprod (mT ?Zbar) ?Zbar"
  from j obtain p where p: "p < length ?idx" "?idx ! p = j"
    by (auto simp: in_set_conv_nth)
  have "mget ?N p p = np_sqrt lib (1 / D ! j)"
    using mget_diag [of p "map (\<lambda>i. np_sqrt lib (1 / D ! i)) ?idx"] p by simp
  with sq [OF d] have nN: "\<not> fin (mget ?N p p)" by simp
  have nZ: "\<not> fin (mget ?Z 0 p)"
    by (rule mprod_not_finite [of fin _ _ _ _ p]) (use add mul in blast, use add mul in blast, use p x nN in simp_all)
  have nZbar: "\<not> fin (mget ?Zbar 0 p)"
    by (rule mprod_not_finite [of fin _ _ _ _ 0]) (use add mul in blast, use add mul in blast, use p x l True nZ in simp_all)
  have nC1: "\<not> fin (mget ?C1 p p)"
    by (rule mprod_not_finite [of fin _ _ _ _ 0]) (use add mul in blast, use add mul in blast, use p l nZbar in simp_all)
  have "eig_solver lib ?C1 = None"
    by (rule eg [of p _ p]) (use p nC1 in simp_all)
  then have "linalg_eig lib ?C1 = Inl LinAlgError" by (simp add: linalg_eig_def)
  then show ?thesis
    by (simp add: transform_eq_outcome [OF ok] transform_outcome_def e1 Let_def True)
qed

section \<open>The outcomes of fit\<close>

lemma fit_stage1_args_D:
  assumes "fit_stage1_args lib self epochs keep1 keep2 keep3 c1 c2 det = Inr (X, L, a, b, c, d, e)"
  shows "X = spec_flatten (data epochs) \<and>
         L = tile (identity (dim2 (data epochs))) (dim0 (data epochs)) \<and>
         a = (case keep1 of None \<Rightarrow> int (nchan (info epochs)) | Some k \<Rightarrow> k) \<and>
         b = (case keep2 of None \<Rightarrow> a | Some k \<Rightarrow> k)"
  using assms
  by (auto simp: fit_stage1_args_def fit_defaults_def flatten_trials_eq bindE_eq_Inr Let_def
      split: prod.splits if_splits)

lemma stage1_matrix_raw:
  "stage1_matrix lib self epochs keep1 keep2 keep3 condition1 condition2 detrending = Inr X
     \<Longrightarrow> X = spec_flatten (data epochs)"
  by (auto simp: stage1_matrix_def fit_stage1_args_def flatten_trials_eq bindE_eq_Inr Let_def
      split: prod.splits)

lemma fit_stage2_unmixing_D:
  assumes u: "unmixing self = Some U1"
    and r: "fit_stage2_unmixing lib self epochs X keep2 keep3 c1 c2 = Inr (P, N, Q, U)"
  shows "\<exists>a b L2 Y. getitem epochs c1 = Inr a \<and> getitem epochs c2 = Inr b \<and>
           signed_filter epochs a b = Inr L2 \<and> matmul X U1 = Inr Y \<and>
           transform lib Y L2 (Some keep2) keep3 = Inr (P, N, Q) \<and>
           extend_unmixing U1 (P, N, Q) = Inr U"
  using r
  by (auto simp: fit_stage2_unmixing_def u matmul_r_def matmul_l_def signed_filter_def
      extend_unmixing_def bindE_eq_Inr split: prod.splits)

lemma fit_stage2_cases:
  assumes u: "unmixing self = Some U1" and m: "mixing self = Some M1"
    and c: "ncols U1 = nrows M1"
  shows "(\<exists>e. fit_stage2 lib self epochs X keep2 keep3 c1 c2 = (Inl e, self)) \<or>
         (\<exists>a b L2 Y T2 U M. getitem epochs c1 = Inr a \<and> getitem epochs c2 = Inr b \<and>
            signed_filter epochs a b = Inr L2 \<and> matmul X U1 = Inr Y \<and>
            transform lib Y L2 (Some keep2) keep3 = Inr T2 \<and>
            extend_unmixing U1 T2 = Inr U \<and> extend_mixing T2 M1 = Inr M \<and>
            fit_stage2 lib self epochs X keep2 keep3 c1 c2 =
              (Inr (), self\<lparr>unmixing := Some U, mixing := Some M\<rparr>))"
proof (cases "fit_stage2_unmixing lib self epochs X keep2 keep3 c1 c2")
  case (Inl e)
  then show ?thesis by (simp add: fit_stage2_def)
next
  case (Inr r)
  obtain P N Q U where r: "r = (P, N, Q, U)" by (cases r) auto
  from fit_stage2_unmixing_D [OF u Inr [unfolded r]]
  obtain a b L2 Y where d: "getitem epochs c1 = Inr a" "getitem epochs c2 = Inr b"
      "signed_filter epochs a b = Inr L2" "matmul X U1 = Inr Y"
      "transform lib Y L2 (Some keep2) keep3 = Inr (P, N, Q)"
      "extend_unmixing U1 (P, N, Q) = Inr U"
    by blast
  from transform_Inr_shapes [OF d(5)]
  have s: "nrows P = ncols Y" "nrows N = ncols P" "ncols N = ncols P" by auto
  from extend_unmixing_D [OF d(6)] have e: "ncols N = nrows Q" by simp
  from stage_mixing_conform [of N P Q] s e
  obtain S where S: "stage_mixing (P, N, Q) = Inr S" "ncols S = nrows P" by auto
  from matmul_Inr [OF d(4)] have "ncols Y = ncols U1" by simp
  with S(2) s(1) c have "ncols S = nrows M1" by simp
  then obtain M where M: "matmul S M1 = Inr M"
    using matmul_conform [of S M1] by auto
  have em: "extend_mixing (P, N, Q) M1 = Inr M"
    by (simp add: extend_mixing_def S(1) M)
  from S(1) have S': "bindE (matmul (mT Q) (diag (map (\<lambda>x. 1 / x) (diagonal N))))
                        (\<lambda>QD. matmul QD (mT P)) = Inr S"
    by (simp add: stage_mixing_def)
  have "fit_stage2 lib self epochs X keep2 keep3 c1 c2 =
          (Inr (), self\<lparr>unmixing := Some U, mixing := Some M\<rparr>)"
    by (simp add: fit_stage2_def Inr r Let_def S' matmul_r_def m M)
  with d em show ?thesis by blast
qed

lemma fit_cases:
  "(\<exists>e. fit lib self epochs keep1 keep2 keep3 c1 c2 det = (Inl e, self)) \<or>
   (\<exists>X L a b c d e T1 U1 M1.
      fit_stage1_args lib self epochs keep1 keep2 keep3 c1 c2 det = Inr (X, L, a, b, c, d, e) \<and>
      transform lib X L (Some a) (Some b) = Inr T1 \<and>
      stage_unmixing T1 = Inr U1 \<and> stage_mixing T1 = Inr M1 \<and>
      nrows U1 = dim1 (data epochs) \<and> ncols M1 = dim1 (data epochs) \<and> ncols U1 = nrows M1 \<and>
      fit lib self epochs keep1 keep2 keep3 c1 c2 det =
        (if kind self = Difference
         then fit_stage2 lib (self\<lparr>unmixing := Some U1, mixing := Some M1\<rparr>) epochs X b c d e
         else (Inr (), self\<lparr>unmixing := Some U1, mixing := Some M1\<rparr>)))"
proof (cases "fit_stage1_args lib self epochs keep1 keep2 keep3 c1 c2 det")
  case (Inl e)
  then show ?thesis by (simp add: fit_def)
next
  case (Inr r)
  obtain X L a b c d e where r: "r = (X, L, a, b, c, d, e)" by (cases r) auto
  note args = Inr [unfolded r]
  from fit_stage1_args_D [OF args] have X: "ncols X = dim1 (data epochs)" by simp
  show ?thesis
  proof (cases "transform lib X L (Some a) (Some b)")
    case (Inl e')
    then show ?thesis by (simp add: fit_def args)
  next
    case T: (Inr T1)
    obtain P N Q where T1: "T1 = (P, N, Q)" by (cases T1) auto
    note T' = T [unfolded T1]
    show ?thesis
    proof (cases "stage_unmixing (P, N, Q)")
      case (Inl e')
      then have "bindE (matmul P N) (\<lambda>PN. matmul PN Q) = Inl e'"
        by (simp add: stage_unmixing_def)
      then show ?thesis by (simp add: fit_def args T')
    next
      case U: (Inr U1)
      from stage_pair [OF T' U] X
      obtain M1 where M: "stage_mixing (P, N, Q) = Inr M1" "nrows U1 = dim1 (data epochs)"
          "ncols M1 = dim1 (data epochs)" "ncols U1 = nrows M1"
        by auto
      from U have U': "bindE (matmul P N) (\<lambda>PN. matmul PN Q) = Inr U1"
        by (simp add: stage_unmixing_def)
      from M(1) have M': "bindE (matmul (mT Q) (diag (map (\<lambda>x. 1 / x) (diagonal N))))
                            (\<lambda>QD. matmul QD (mT P)) = Inr M1"
        by (simp add: stage_mixing_def)
      have "fit lib self epochs keep1 keep2 keep3 c1 c2 det =
        (if kind self = Difference
         then fit_stage2 lib (self\<lparr>unmixing := Some U1, mixing := Some M1\<rparr>) epochs X b c d e
         else (Inr (), self\<lparr>unmixing := Some U1, mixing := Some M1\<rparr>))"
        by (simp add: fit_def args T' U' M' Let_def)
      with args T U M show ?thesis unfolding T1 by blast
    qed
  qed
qed

lemma fit_stage1_Inl:
  assumes "fit_stage1 lib self epochs keep1 keep2 keep3 c1 c2 det = Inl e"
  shows "fit lib self epochs keep1 keep2 keep3 c1 c2 det = (Inl e, self)"
proof (cases "fit_stage1_args lib self epochs keep1 keep2 keep3 c1 c2 det")
  case (Inl e')
  with assms show ?thesis by (simp add: fit_def fit_stage1_def)
next
  case (Inr r)
  obtain X L a b c d e' where r: "r = (X, L, a, b, c, d, e')" by (cases r) auto
  note args = Inr [unfolded r]
  show ?thesis
  proof (cases "transform lib X L (Some a) (Some b)")
    case (Inl e')
    with assms show ?thesis by (simp add: fit_def fit_stage1_def args)
  next
    case T: (Inr T1)
    obtain P N Q where T1: "T1 = (P, N, Q)" by (cases T1) auto
    note T' = T [unfolded T1]
    show ?thesis
    proof (cases "bindE (matmul P N) (\<lambda>PN. matmul PN Q)")
      case (Inl e')
      with assms show ?thesis by (simp add: fit_def fit_stage1_def args T')
    next
      case U: (Inr U1)
      then have "stage_unmixing (P, N, Q) = Inr U1" by (simp add: stage_unmixing_def)
      from stage_pair [OF T' this]
      obtain M1 where "stage_mixing (P, N, Q) = Inr M1" by auto
      then have "bindE (matmul (mT Q) (diag (map (\<lambda>x. 1 / x) (diagonal N))))
                   (\<lambda>QD. matmul QD (mT P)) = Inr M1"
        by (simp add: stage_mixing_def)
      with assms show ?thesis by (simp add: fit_stage1_def args T' U)
    qed
  qed
qed

lemma fit_stage1_Inr:
  assumes "fit_stage1 lib self epochs keep1 keep2 keep3 c1 c2 det = Inr (X, b, c, d, e, U1, M1)"
  shows "ncols U1 = nrows M1 \<and>
         fit lib self epochs keep1 keep2 keep3 c1 c2 det =
           (if kind self = Difference
            then fit_stage2 lib (self\<lparr>unmixing := Some U1, mixing := Some M1\<rparr>) epochs X b c d e
            else (Inr (), self\<lparr>unmixing := Some U1, mixing := Some M1\<rparr>))"
proof -
  from assms obtain L a P N Q where
    args: "fit_stage1_args lib self epochs keep1 keep2 keep3 c1 c2 det = Inr (X, L, a, b, c, d, e)"
    and T: "transform lib X L (Some a) (Some b) = Inr (P, N, Q)"
    and U: "bindE (matmul P N) (\<lambda>PN. matmul PN Q) = Inr U1"
    and M: "bindE (matmul (mT Q) (diag (map (\<lambda>x. 1 / x) (diagonal N)))) (\<lambda>QD. matmul QD (mT P)) = Inr M1"
    unfolding fit_stage1_def
    by (auto simp: bindE_eq_Inr [of "fit_stage1_args lib self epochs keep1 keep2 keep3 c1 c2 det"]
          bindE_eq_Inr [of "transform lib X L (Some a) (Some b)" for X L a b]
          bindE_eq_Inr [of "bindE x f" for x f]
        split: prod.splits)
  from U have U': "stage_unmixing (P, N, Q) = Inr U1" by (simp add: stage_unmixing_def)
  from stage_pair [OF T U'] M have "ncols U1 = nrows M1" by (auto simp: stage_mixing_def)
  moreover have "fit lib self epochs keep1 keep2 keep3 c1 c2 det =
           (if kind self = Difference
            then fit_stage2 lib (self\<lparr>unmixing := Some U1, mixing := Some M1\<rparr>) epochs X b c d e
            else (Inr (), self\<lparr>unmixing := Some U1, mixing := Some M1\<rparr>))"
    by (simp add: fit_def args T U M Let_def)
  ultimately show ?thesis by simp
qed

lemma fit_stage1_args_keep1:
  "fit_stage1_args lib self epochs (Some k) keep2 keep3 c1 c2 det =
     bindE (fit_stage1_args lib self epochs (Some k') keep2 keep3 c1 c2 det)
       (\<lambda>(X, L, a, b, c, d, e).
          Inr (X, L, k, (case keep2 of None \<Rightarrow> k | Some x \<Rightarrow> x),
               (if keep3 = None \<and> kind self = Difference
                then Some (case keep2 of None \<Rightarrow> k | Some x \<Rightarrow> x) else keep3), d, e))"
  by (auto simp: fit_stage1_args_def fit_defaults_def Let_def bindE_def split: sum.splits option.splits)

lemma fit_stage2_cong:
  assumes u: "unmixing s = Some U"
    and t: "\<And>Y L2. matmul X U = Inr Y \<Longrightarrow>
              transform lib Y L2 (Some b) c = transform lib Y L2 (Some b') c'"
  shows "fit_stage2 lib s epochs X b c d e = fit_stage2 lib s epochs X b' c' d e"
proof -
  have "fit_stage2_unmixing lib s epochs X b c d e = fit_stage2_unmixing lib s epochs X b' c' d e"
  proof (cases "matmul X U")
    case (Inl err)
    then show ?thesis
      by (simp add: fit_stage2_unmixing_def u matmul_r_def bindE_def split: sum.splits)
  next
    case (Inr Y)
    from t [OF Inr] show ?thesis
      by (simp add: fit_stage2_unmixing_def u matmul_r_def Inr bindE_def split: sum.splits)
  qed
  then show ?thesis by (simp add: fit_stage2_def)
qed

lemma fit_clip:
  assumes ok: "lib_ok lib" and k: "int (dim1 (data epochs)) \<le> k"
  shows "fit lib self epochs (Some k) keep2 keep3 c1 c2 det =
         fit lib self epochs (Some (int (dim1 (data epochs)))) keep2 keep3 c1 c2 det"
proof (cases "fit_stage1_args lib self epochs (Some (int (dim1 (data epochs)))) keep2 keep3 c1 c2 det")
  case (Inl err)
  with fit_stage1_args_keep1 [of lib self epochs k keep2 keep3 c1 c2 det "int (dim1 (data epochs))"]
  have "fit_stage1_args lib self epochs (Some k) keep2 keep3 c1 c2 det = Inl err" by simp
  with Inl show ?thesis by (simp add: fit_def)
next
  case (Inr r)
  let ?n = "int (dim1 (data epochs))"
  define b where "b = (case keep2 of None \<Rightarrow> k | Some x \<Rightarrow> x)"
  define b' where "b' = (case keep2 of None \<Rightarrow> ?n | Some x \<Rightarrow> x)"
  define c where "c = (if keep3 = None \<and> kind self = Difference then Some b else keep3)"
  define c' where "c' = (if keep3 = None \<and> kind self = Difference then Some b' else keep3)"
  obtain X L a0 b0 c0 d e where r: "r = (X, L, a0, b0, c0, d, e)" by (cases r) auto
  from fit_stage1_args_keep1 [of lib self epochs k keep2 keep3 c1 c2 det ?n] Inr r
  have args_k: "fit_stage1_args lib self epochs (Some k) keep2 keep3 c1 c2 det = Inr (X, L, k, b, c, d, e)"
    by (simp add: b_def c_def)
  from fit_stage1_args_keep1 [of lib self epochs ?n keep2 keep3 c1 c2 det ?n] Inr r
  have args_n: "fit_stage1_args lib self epochs (Some ?n) keep2 keep3 c1 c2 det = Inr (X, L, ?n, b', c', d, e)"
    by (simp add: b'_def c'_def)
  from fit_stage1_args_D [OF args_n] have X: "ncols X = dim1 (data epochs)" by simp
  have bb: "b = b' \<or> (\<exists>j j'. Some b = Some j \<and> Some b' = Some j' \<and> ?n \<le> j \<and> ?n \<le> j')"
    using k by (cases keep2) (simp_all add: b_def b'_def)
  have T: "transform lib X L (Some k) (Some b) = transform lib X L (Some ?n) (Some b')"
    by (rule transform_clip [OF ok]) (use k X bb in auto)
  have S2: "fit_stage2 lib (self\<lparr>unmixing := Some U1, mixing := Some M1\<rparr>) epochs X b c d e =
            fit_stage2 lib (self\<lparr>unmixing := Some U1, mixing := Some M1\<rparr>) epochs X b' c' d e"
    if t: "transform lib X L (Some ?n) (Some b') = Inr (P, N, Q)"
      and u: "bindE (matmul P N) (\<lambda>PN. matmul PN Q) = Inr U1"
    for P N Q U1 M1
  proof (rule fit_stage2_cong)
    show "unmixing (self\<lparr>unmixing := Some U1, mixing := Some M1\<rparr>) = Some U1" by simp
  next
    fix Y L2
    assume Y: "matmul X U1 = Inr Y"
    from u have "stage_unmixing (P, N, Q) = Inr U1" by (simp add: stage_unmixing_def)
    from stage_unmixing_D [OF this] transform_Inr_kept [OF ok t] X
    have "ncols U1 \<le> dim1 (data epochs)" by (simp add: kept_def split: if_splits)
    with matmul_Inr [OF Y] have Yn: "int (ncols Y) \<le> ?n" by simp
    show "transform lib Y L2 (Some b) c = transform lib Y L2 (Some b') c'"
    proof (cases keep2)
      case (Some x)
      then show ?thesis by (simp add: b_def b'_def c_def c'_def)
    next
      case None
      then have bk: "b = k" "b' = ?n" by (simp_all add: b_def b'_def)
      have cc: "c = c' \<or> (\<exists>j j'. c = Some j \<and> c' = Some j' \<and> int (ncols Y) \<le> j \<and> int (ncols Y) \<le> j')"
        using Yn k by (auto simp: c_def c'_def bk)
      from Yn k have "int (ncols Y) \<le> k" by simp
      from transform_clip [OF ok this Yn cc] show ?thesis
        unfolding bk .
    qed
  qed
  show ?thesis
    by (auto simp: fit_def args_k args_n T Let_def S2 split: sum.splits prod.splits)
qed


section \<open>The shapes of what the projections return\<close>

lemma shape3_EpochsArray [simp]: "shape3 (EpochsArray d i ev t) = (dim0 d, dim1 d, dim2 d)"
  by (simp add: shape3_def EpochsArray_def)

lemma get_components_shape:
  assumes u: "unmixing model = Some U" and ch: "nrows U = dim1 (data epochs)"
    and pos: "0 < dim0 (data epochs)" "0 < dim2 (data epochs)"
  shows "\<exists>Y. get_components model epochs = Inr Y \<and>
              shape3 Y = (dim0 (data epochs), ncols U, dim2 (data epochs))"
proof -
  obtain Y where Y: "matmul (spec_flatten (data epochs)) U = Inr Y"
      "nrows Y = dim0 (data epochs) * dim2 (data epochs)" "ncols Y = ncols U"
    using matmul_conform [of "spec_flatten (data epochs)" U] ch by auto
  from unflatten_D [OF Y(2) pos]
  obtain R where R: "reshape_infer (mT Y) (dim0 (data epochs)) (dim2 (data epochs)) = Inr R"
      "transpose_102 R = spec_unflatten Y (dim0 (data epochs)) (dim2 (data epochs))"
    by auto
  show ?thesis
    by (simp add: get_components_def flatten_trials_eq matmul_r_def u Y(1,3) R Let_def)
qed

lemma reproject_components_shape:
  assumes u: "unmixing model = Some U" and m: "mixing model = Some M"
    and ch: "nrows U = dim1 (data epochs)" and c: "ncols U = nrows M"
    and pos: "0 < dim0 (data epochs)" "0 < dim2 (data epochs)"
  shows "\<exists>R. reproject_components model epochs = Inr R \<and>
              shape3 R = (dim0 (data epochs), ncols M, dim2 (data epochs))"
proof -
  obtain Y where Y: "matmul (spec_flatten (data epochs)) U = Inr Y"
      "nrows Y = dim0 (data epochs) * dim2 (data epochs)" "ncols Y = ncols U"
    using matmul_conform [of "spec_flatten (data epochs)" U] ch by auto
  obtain X where X: "matmul Y M = Inr X" "nrows X = dim0 (data epochs) * dim2 (data epochs)"
      "ncols X = ncols M"
    using matmul_conform [of Y M] Y(2,3) c by auto
  from unflatten_D [OF X(2) pos]
  obtain R where R: "reshape_infer (mT X) (dim0 (data epochs)) (dim2 (data epochs)) = Inr R"
      "transpose_102 R = spec_unflatten X (dim0 (data epochs)) (dim2 (data epochs))"
    by auto
  show ?thesis
    by (simp add: reproject_components_def flatten_trials_eq matmul_r_def u m Y(1) X(1,3) R Let_def)
qed

section \<open>The bootstrap loop\<close>

lemma bootstrap_body_Ranks:
  assumes "ci_var st = Ranks lo hi"
  shows "\<exists>e. bootstrap_body lib epochs n i st = Inl e"
  using assms
  by (auto simp: bootstrap_body_def Let_def bindE_def split: sum.splits prod.splits)

lemma bootstrap_body_Inr:
  assumes "bootstrap_body lib epochs n i st = Inr st'"
  shows "(\<forall>c. ci_var st' \<noteq> Level c) \<and> bands st' \<noteq> None"
  using assms
  by (auto simp: bootstrap_body_def Let_def bindE_def
      split: sum.splits prod.splits ci_value.splits)

lemma bootstrap_body_TypeError:
  assumes r: "ci_var st = Ranks lo hi"
    and f: "bootstrap_body lib epochs n i (st\<lparr>ci_var := Level c\<rparr>) = Inr st2"
  shows "bootstrap_body lib epochs n i st = Inl TypeError"
  using f r
  by (auto simp: bootstrap_body_def Let_def bindE_def split: sum.splits prod.splits)

lemma bootstrap_loop_two:
  assumes "bootstrap_body lib epochs n i st = Inr st1"
  shows "\<exists>e. bootstrap_body lib epochs n j st1 = Inl e \<and>
             bootstrap_loop lib epochs n (i # j # rest) st = Inl e"
proof -
  from bootstrap_body_Inr [OF assms] obtain lo hi where "ci_var st1 = Ranks lo hi"
    by (cases "ci_var st1") auto
  from bootstrap_body_Ranks [OF this, of lib epochs n j]
  obtain e where "bootstrap_body lib epochs n j st1 = Inl e" by auto
  with assms show ?thesis by simp
qed

lemma bootstrap_loop_two_fails:
  "\<exists>e. bootstrap_loop lib epochs n (i # j # rest) st = Inl e"
proof (cases "bootstrap_body lib epochs n i st")
  case (Inl e)
  then show ?thesis by simp
next
  case (Inr st1)
  from bootstrap_loop_two [OF Inr] show ?thesis by blast
qed

lemma range_two: "2 \<le> n \<Longrightarrow> [0..<nat n] = 0 # 1 # [2..<nat n]"
proof -
  assume "2 \<le> n"
  then have "0 < nat n" "Suc 0 < nat n" by simp_all
  then show ?thesis by (simp add: upt_conv_Cons numeral_2_eq_2)
qed

section \<open>The example library and the examples\<close>

lemma test_lib_ok: "lib_ok test_lib"
proof -
  have "eig_ok test_lib"
    by (auto simp: eig_ok_def test_lib_def eig_diagonal_def identity_def split: if_splits)
  moreover have "argsort_ok test_lib"
  proof -
    have "set (stable_argsort xs) = {0..<length xs}" for xs
    proof -
      have a: "map snd (zip xs [0..<length xs]) = [0..<length xs]"
        by (rule map_snd_zip) simp
      have "set (stable_argsort xs) = set (map snd (zip xs [0..<length xs]))"
        unfolding stable_argsort_def by (simp only: set_map set_sort)
      then show ?thesis by (simp only: a set_upt)
    qed
    moreover have "length (stable_argsort xs) = length xs" for xs
      by (simp add: stable_argsort_def)
    ultimately show ?thesis by (simp add: argsort_ok_def test_lib_def)
  qed
  ultimately show ?thesis by (simp add: lib_ok_def)
qed

lemma fitted_square_eq:
  "fitted_square = \<lparr>kind = Evoked, mixing = Some (Matrix 2 2 [1, 0, 0, 1]),
                    unmixing = Some (Matrix 2 2 [1, 0, 0, 1])\<rparr>"
  unfolding fitted_square_def by code_simp

lemma fitted_two_eq:
  "fit test_lib fresh_difference ep_two None None None None None False =
     (Inr (), \<lparr>kind = Difference, mixing = Some (Matrix 1 1 [5]), unmixing = Some (Matrix 1 1 [1 / 5])\<rparr>)"
  by code_simp

lemma fitted_narrow_eq:
  "fit test_lib fresh_evoked ep_square (Some 1) (Some 2) None None None True =
     (Inr (), \<lparr>kind = Evoked, mixing = Some (Matrix 1 2 [0, 1]), unmixing = Some (Matrix 2 1 [0, 1])\<rparr>)"
  by code_simp

lemma failed_three_eq:
  "fit test_lib fresh_difference ep_three None None None (Some ''a'') (Some ''b'') False =
     (Inl ShapeMismatch,
      \<lparr>kind = Difference, mixing = Some (Matrix 1 1 [7]), unmixing = Some (Matrix 1 1 [1 / 7])\<rparr>)"
  by code_simp

lemma components_after_failed_fit:
  "get_components \<lparr>kind = Difference, mixing = Some (Matrix 1 1 [7]), unmixing = Some (Matrix 1 1 [1 / 7])\<rparr>
     ep_three = Inr (EpochsArray (Tensor 3 1 1 [2 / 7, 3 / 7, 6 / 7]) \<lparr>nchan = 1, sfreq = 100\<rparr>
         [(0, 0, 2), (10, 0, 1), (20, 0, 3)] 0)"
  by code_simp

lemma refit_three_eq:
  "fit test_lib \<lparr>kind = Difference, mixing = Some (Matrix 1 1 [5]), unmixing = Some (Matrix 1 1 [1 / 5])\<rparr>
     ep_three None None None (Some ''a'') (Some ''b'') False =
     (Inl ShapeMismatch,
      \<lparr>kind = Difference, mixing = Some (Matrix 1 1 [7]), unmixing = Some (Matrix 1 1 [1 / 7])\<rparr>)"
  by code_simp

lemma refit_corr_eq:
  "fst (fit test_lib \<lparr>kind = Evoked, mixing = Some (Matrix 2 2 [1, 0, 0, 1]),
                      unmixing = Some (Matrix 2 2 [1, 0, 0, 1])\<rparr>
        ep_corr None None None None None False) = Inl LinAlgError"
  by code_simp

lemma stage1_refit_corr_eq:
  "fit_stage1 test_lib \<lparr>kind = Evoked, mixing = Some (Matrix 2 2 [1, 0, 0, 1]),
                         unmixing = Some (Matrix 2 2 [1, 0, 0, 1])\<rparr>
     ep_corr None None None None None False = Inl LinAlgError"
  by code_simp

lemma stage1_refit_three_eq:
  "fit_stage1 test_lib \<lparr>kind = Difference, mixing = Some (Matrix 1 1 [5]), unmixing = Some (Matrix 1 1 [1 / 5])\<rparr>
     ep_three None None None (Some ''a'') (Some ''b'') False =
     Inr (Matrix 3 1 [2, 3, 6], 1, Some 1, Some ''a'', Some ''b'', Matrix 1 1 [1 / 7], Matrix 1 1 [7])"
  by code_simp

lemma narrow_components_eq:
  "bindE (get_components \<lparr>kind = Evoked, mixing = Some (Matrix 1 2 [0, 1]),
                           unmixing = Some (Matrix 2 1 [0, 1])\<rparr> ep_square)
         (\<lambda>Y. Inr (shape3 Y)) = Inr (1, 1, 2)"
  by code_simp

lemma wide_fit_eq:
  "fst (fit test_lib fresh_evoked ep_square (Some 3) None None None None True) = Inr ()"
  by code_simp

lemma wide_transform_eq:
  "transform test_lib (Matrix 2 2 [1, 0, 0, 1]) (Matrix 2 2 [1, 0, 0, 1]) (Some 3) (Some 3) =
     Inr (Matrix 2 2 [0, 1, 1, 0], Matrix 2 2 [1, 0, 0, 1], Matrix 2 2 [0, 1, 1, 0])"
  by code_simp

lemma ieee_lib_ok: "lib_ok ieee_lib"
proof -
  have "eig_ok ieee_lib"
    by (auto simp: eig_ok_def ieee_lib_def fl_eig_def identity_def split: if_splits)
  moreover have "argsort_ok ieee_lib"
  proof -
    have "set (fl_argsort xs) = {0..<length xs}" for xs
    proof -
      have a: "map snd (zip xs [0..<length xs]) = [0..<length xs]"
        by (rule map_snd_zip) simp
      have "set (fl_argsort xs) = set (map snd (zip xs [0..<length xs]))"
        unfolding fl_argsort_def by (simp only: set_map set_sort)
      then show ?thesis by (simp only: a set_upt)
    qed
    moreover have "length (fl_argsort xs) = length xs" for xs
      by (simp add: fl_argsort_def)
    ultimately show ?thesis by (simp add: argsort_ok_def ieee_lib_def)
  qed
  ultimately show ?thesis by (simp add: lib_ok_def)
qed

lemma fl_add_not_finite: "\<not> is_fin a \<or> \<not> is_fin b \<Longrightarrow> \<not> is_fin (a + b)"
  by (cases a; cases b) (simp_all add: plus_fl_def)

lemma fl_mul_not_finite: "\<not> is_fin a \<or> \<not> is_fin b \<Longrightarrow> \<not> is_fin (a * b)"
  by (cases a; cases b) (simp_all add: times_fl_def)

lemma fl_sqrt_not_finite: "fl_nonpos d \<Longrightarrow> \<not> is_fin (fl_sqrt (1 / d))"
  by (cases d) (auto simp: divide_fl_def one_fl_def)

lemma fl_eig_not_finite:
  assumes "i < nrows m" "j < ncols m" "\<not> is_fin (mget m i j)"
  shows "fl_eig m = None"
proof -
  from assms(1,2) have b: "i * ncols m + j < nrows m * ncols m" by (rule idx_bound)
  have "\<not> fl_is_diagonal m"
  proof
    assume "fl_is_diagonal m"
    with b have "if (i * ncols m + j) div ncols m = (i * ncols m + j) mod ncols m
                 then is_fin (elems m ! (i * ncols m + j)) else elems m ! (i * ncols m + j) = Fin 0"
      unfolding fl_is_diagonal_def by simp
    with assms(3) show False by (auto simp: mget_def split: if_splits)
  qed
  then show ?thesis by (simp add: fl_eig_def)
qed

lemma ieee_lib_ieee: "ieee_like ieee_lib is_fin fl_nonpos"
  unfolding ieee_like_def
  using fl_add_not_finite fl_mul_not_finite fl_sqrt_not_finite fl_eig_not_finite
  by (auto simp: ieee_lib_def)


lemma flat_eig_eq:
  "linalg_eig ieee_lib (mprod (mT (Matrix 2 2 [Fin 2, Fin 0, Fin 0, Fin 0]))
                              (Matrix 2 2 [Fin 2, Fin 0, Fin 0, Fin 0])) =
     Inr ([Fin 4, Fin 0], Matrix 2 2 [Fin 1, Fin 0, Fin 0, Fin 1])"
  by code_simp

lemma flat_retained_eq:
  "slice_to (rev (argsort ieee_lib [Fin 4, Fin 0])) None = [0, 1]"
  by code_simp

lemma flat_fit_eq:
  "fit ieee_lib \<lparr>kind = Evoked, mixing = None, unmixing = None\<rparr> ep_flat (Some 2) None None None None True =
     (Inl LinAlgError, \<lparr>kind = Evoked, mixing = None, unmixing = None\<rparr>)"
  by code_simp

lemma flat_outcome_eq:
  "transform_outcome ieee_lib (Matrix 2 2 [Fin 2, Fin 0, Fin 0, Fin 0])
       (Matrix 2 2 [Fin 1, Fin 0, Fin 0, Fin 1]) (Some 1) None =
     Inr (Matrix 2 1 [Fin 1, Fin 0], Matrix 1 1 [Fin (1 / 2)], Matrix 1 1 [Fin 1])"
  by code_simp

lemma bootstrap_one_eq:
  "bootstrap_components test_lib ep_square 1 2 2 (95 / 100) =
     Inr (Matrix 2 2 [1, 0, 0, 1], Matrix 2 2 [1, 0, 0, 1])"
  by code_simp

lemma bootstrap_two_eq:
  "bootstrap_components test_lib ep_square 2 2 2 (95 / 100) = Inl TypeError"
  by code_simp

section \<open>C1 and C2: the data matrix of the first stage\<close>

text \<open>
  Claim C1 (the code departs from it). In Difference mode the matrix handed to the
  eigensolver should be built from the trials of condition a followed by the trials of
  condition b. On \<open>ep_three\<close> (with detrending off), whose trials are one of b
  (value 2), one of a (value 3) and one of c (value 6), the code hands over all three trials in their
  stored order, while the concatenation of the a and b subsets flattens to 3, 2.
\<close>

theorem difference_stage1_matrix_at_ep_three:
  "stage1_matrix test_lib fresh_difference ep_three None None None (Some ''a'') (Some ''b'') False
     = Inr (Matrix 3 1 [2, 3, 6]) \<and>
   bindE (spec_selected_trials ep_three (Some ''a'') (Some ''b'')) flatten_trials
     = Inr (Matrix 2 1 [3, 2])"
  by code_simp

text \<open>
  Claim C2 (the code departs from it). With detrending enabled the matrix handed to the
  eigensolver should be the detrended data. On \<open>ep_trend\<close>, whose only series is
  0, 1, 2, the code hands over the series as it is, while its detrended version is
  0, 0, 0.
\<close>

theorem detrended_stage1_matrix_at_ep_trend:
  "stage1_matrix test_lib fresh_evoked ep_trend None None None None None True
     = Inr (Matrix 3 1 [0, 1, 2]) \<and>
   bindE (detrend test_lib (data ep_trend)) flatten_trials = Inr (Matrix 3 1 [0, 0, 0])"
  by code_simp

section \<open>C3: where the eigensolver fails\<close>

text \<open>
  Claim C3, as stated, fails: with keep1 = keep2 = 3 on a 2 by 2 data matrix of rank 2
  the eigensolver returns its triple, and fit with keep1 = 3 on the two channels of
  \<open>ep_square\<close> returns normally.
\<close>

theorem keep_beyond_rank_counterexample:
  "transform test_lib (Matrix 2 2 [1, 0, 0, 1]) (Matrix 2 2 [1, 0, 0, 1]) (Some 3) (Some 3) =
     Inr (Matrix 2 2 [0, 1, 1, 0], Matrix 2 2 [1, 0, 0, 1], Matrix 2 2 [0, 1, 1, 0]) \<and>
   fst (fit test_lib fresh_evoked ep_square (Some 3) None None None None True) = Inr ()"
  by (simp only: wide_transform_eq wide_fit_eq simp_thms)

text \<open>
  Claim C3, amended. The eigensolver has no check of rank or sign of its own. With a
  library that keeps the documented result shapes it is \<open>transform_outcome\<close>: it
  raises when the first eigendecomposition raises, when the bias filter has not as many
  columns as X has rows, or when the second eigendecomposition raises, and it returns
  otherwise. A keep1 or keep2 beyond the number of eigenvalues raises nothing: the call
  is the call that keeps every eigenpair. A non-positive eigenvalue among those that the
  first slice retains is not detected, but with the arithmetic of IEEE 754 its whitening
  factor is not finite and reaches the second covariance, so that the second
  eigendecomposition raises, provided X and L have at least one row each. The
  eigenvalues of the second decomposition are only sorted. Accordingly fit with keep1
  beyond the channel count is fit with keep1 equal to the channel count, and raises only
  if that call raises.
\<close>

theorem transform_failures:
  assumes "lib_ok lib"
  shows "transform lib X L keep1 keep2 = transform_outcome lib X L keep1 keep2 \<and>
         (\<forall>k. int (ncols X) \<le> k \<longrightarrow>
              transform lib X L (Some k) keep2 = transform lib X L None keep2) \<and>
         (\<forall>k. int (kept (ncols X) keep1) \<le> k \<longrightarrow>
              transform lib X L keep1 (Some k) = transform lib X L keep1 None) \<and>
         (\<forall>D P0 j. ieee_like lib fin nonpos \<and>
              linalg_eig lib (mprod (mT X) X) = Inr (D, P0) \<and>
              j \<in> set (slice_to (rev (argsort lib D)) keep1) \<and> nonpos (D ! j) \<and>
              0 < nrows X \<and> 0 < nrows L \<longrightarrow>
              transform lib X L keep1 keep2 =
                Inl (if ncols L = nrows X then LinAlgError else ShapeMismatch)) \<and>
         (\<forall>k. int (dim1 (data epochs)) \<le> k \<longrightarrow>
              fit lib self epochs (Some k) k2 k3 c1 c2 det =
              fit lib self epochs (Some (int (dim1 (data epochs)))) k2 k3 c1 c2 det)"
proof (intro conjI allI impI)
  show "transform lib X L keep1 keep2 = transform_outcome lib X L keep1 keep2"
    by (rule transform_eq_outcome [OF assms])
next
  fix k assume "int (ncols X) \<le> k"
  then show "transform lib X L (Some k) keep2 = transform lib X L None keep2"
    by (rule transform_clip1 [OF assms])
next
  fix k assume "int (kept (ncols X) keep1) \<le> k"
  then show "transform lib X L keep1 (Some k) = transform lib X L keep1 None"
    by (rule transform_clip2 [OF assms])
next
  fix D P0 j
  assume "ieee_like lib fin nonpos \<and>
              linalg_eig lib (mprod (mT X) X) = Inr (D, P0) \<and>
              j \<in> set (slice_to (rev (argsort lib D)) keep1) \<and> nonpos (D ! j) \<and>
              0 < nrows X \<and> 0 < nrows L"
  then show "transform lib X L keep1 keep2 =
                Inl (if ncols L = nrows X then LinAlgError else ShapeMismatch)"
    using transform_not_finite [OF assms, of fin nonpos X D P0 j keep1 L keep2] by blast
next
  fix k assume "int (dim1 (data epochs)) \<le> k"
  then show "fit lib self epochs (Some k) k2 k3 c1 c2 det =
              fit lib self epochs (Some (int (dim1 (data epochs)))) k2 k3 c1 c2 det"
    by (rule fit_clip [OF assms])
qed

theorem transform_failures_witness:
  "lib_ok ieee_lib \<and> ieee_like ieee_lib is_fin fl_nonpos \<and>
   linalg_eig ieee_lib (mprod (mT (Matrix 2 2 [Fin 2, Fin 0, Fin 0, Fin 0]))
                              (Matrix 2 2 [Fin 2, Fin 0, Fin 0, Fin 0])) =
     Inr ([Fin 4, Fin 0], Matrix 2 2 [Fin 1, Fin 0, Fin 0, Fin 1]) \<and>
   1 \<in> set (slice_to (rev (argsort ieee_lib [Fin 4, Fin 0])) None) \<and>
   fl_nonpos ([Fin 4, Fin 0] ! 1) \<and>
   transform ieee_lib (Matrix 2 2 [Fin 2, Fin 0, Fin 0, Fin 0])
       (Matrix 2 2 [Fin 1, Fin 0, Fin 0, Fin 1]) None None = Inl LinAlgError \<and>
   transform ieee_lib (Matrix 2 2 [Fin 2, Fin 0, Fin 0, Fin 0])
       (Matrix 2 2 [Fin 1, Fin 0, Fin 0, Fin 1]) (Some 5) None = Inl LinAlgError \<and>
   transform ieee_lib (Matrix 2 2 [Fin 2, Fin 0, Fin 0, Fin 0])
       (Matrix 2 2 [Fin 1, Fin 0, Fin 0, Fin 1]) (Some 1) (Some 7) =
     Inr (Matrix 2 1 [Fin 1, Fin 0], Matrix 1 1 [Fin (1 / 2)], Matrix 1 1 [Fin 1]) \<and>
   fit ieee_lib \<lparr>kind = Evoked, mixing = None, unmixing = None\<rparr> ep_flat (Some 5) None None None None True =
     (Inl LinAlgError, \<lparr>kind = Evoked, mixing = None, unmixing = None\<rparr>)"
proof -
  let ?X = "Matrix 2 2 [Fin 2, Fin 0, Fin 0, Fin 0]"
  let ?L = "Matrix 2 2 [Fin 1, Fin 0, Fin 0, Fin 1]"
  let ?s = "\<lparr>kind = Evoked, mixing = None, unmixing = None\<rparr> :: fl JointDecorrelation"
  have m: "(1::nat) \<in> set (slice_to (rev (argsort ieee_lib [Fin 4, Fin 0])) None)"
    by (simp only: flat_retained_eq) simp
  have n: "fl_nonpos ([Fin 4, Fin 0] ! 1)" by simp
  note t = transform_failures [OF ieee_lib_ok, where fin = is_fin and nonpos = fl_nonpos
      and X = ?X and L = ?L and epochs = ep_flat and self = ?s and ?k2.0 = None and ?k3.0 = None
      and ?c1.0 = None and ?c2.0 = None and det = True]
  have x: "0 < nrows ?X" "0 < nrows ?L" by simp_all
  from t [of None None] ieee_lib_ieee flat_eig_eq m n x
  have "transform ieee_lib ?X ?L None None =
          Inl (if ncols ?L = nrows ?X then LinAlgError else ShapeMismatch)"
    by blast
  then have a: "transform ieee_lib ?X ?L None None = Inl LinAlgError"
    by simp
  from t [of None None] a
  have b: "transform ieee_lib ?X ?L (Some 5) None = Inl LinAlgError"
    by simp
  from t [of "Some 1" None] flat_outcome_eq
  have c: "transform ieee_lib ?X ?L (Some 1) (Some 7) =
     Inr (Matrix 2 1 [Fin 1, Fin 0], Matrix 1 1 [Fin (1 / 2)], Matrix 1 1 [Fin 1])"
    by (simp add: kept_def)
  have "int (dim1 (data ep_flat)) = 2" by (simp add: ep_flat_def)
  with t [of None None] flat_fit_eq
  have d: "fit ieee_lib ?s ep_flat (Some 5) None None None None True = (Inl LinAlgError, ?s)"
    by simp
  from ieee_lib_ok ieee_lib_ieee flat_eig_eq m n a b c d show ?thesis
    by (simp only: simp_thms)
qed

section \<open>C4: the model after a fit that raises\<close>

text \<open>
  Claim C4, as stated, fails: the Difference model \<open>fitted_two\<close> comes out of a
  successful fit; a second fit, on \<open>ep_three\<close>, raises in its second stage and leaves
  the matrices of its own first stage in the model.
\<close>

theorem failed_fit_overwrites_counterexample:
  "fst (fit test_lib fresh_difference ep_two None None None None None False) = Inr () \<and>
   unmixing fitted_two = Some (Matrix 1 1 [1 / 5]) \<and>
   mixing fitted_two = Some (Matrix 1 1 [5]) \<and>
   fst (fit test_lib fitted_two ep_three None None None (Some ''a'') (Some ''b'') False)
     = Inl ShapeMismatch \<and>
   unmixing (snd (fit test_lib fitted_two ep_three None None None (Some ''a'') (Some ''b'') False))
     = Some (Matrix 1 1 [1 / 7]) \<and>
   mixing (snd (fit test_lib fitted_two ep_three None None None (Some ''a'') (Some ''b'') False))
     = Some (Matrix 1 1 [7])"
  by (simp only: fitted_two_def fitted_two_eq refit_three_eq fst_conv snd_conv
      JointDecorrelation.select_convs simp_thms)

text \<open>
  Claim C4, amended. What a fit call that raises leaves in the model is decided by where
  it raises. If the error comes from lines 25 to 50 (the defaults, the selection, the
  detrending, the first stage), it is the error of the call and the model is exactly as
  it was before the call; in Evoked mode this is the only way to fail. If lines 25 to 50
  complete, the failing call is in Difference mode, its error is raised by the second
  stage (lines 52 to 58), and the unmixing and mixing stored afterwards are exactly the
  pair that lines 49 and 50 of the failing call have assigned, whatever was stored
  before.
\<close>

theorem failed_fit_state:
  assumes "fst (fit lib self epochs keep1 keep2 keep3 c1 c2 det) = Inl err"
  shows "(case fit_stage1 lib self epochs keep1 keep2 keep3 c1 c2 det of
            Inl e \<Rightarrow> err = e \<and> snd (fit lib self epochs keep1 keep2 keep3 c1 c2 det) = self
          | Inr (X, b, c, d, e, U1, M1) \<Rightarrow>
              kind self = Difference \<and>
              fit_stage2 lib (self\<lparr>unmixing := Some U1, mixing := Some M1\<rparr>) epochs X b c d e =
                (Inl err, self\<lparr>unmixing := Some U1, mixing := Some M1\<rparr>) \<and>
              snd (fit lib self epochs keep1 keep2 keep3 c1 c2 det) =
                self\<lparr>unmixing := Some U1, mixing := Some M1\<rparr>) \<and>
         (kind self = Evoked \<longrightarrow> snd (fit lib self epochs keep1 keep2 keep3 c1 c2 det) = self)"
proof (cases "fit_stage1 lib self epochs keep1 keep2 keep3 c1 c2 det")
  case (Inl e)
  from fit_stage1_Inl [OF Inl] assms show ?thesis by (simp add: Inl)
next
  case (Inr r)
  obtain X b c d e U1 M1 where r: "r = (X, b, c, d, e, U1, M1)" by (cases r) auto
  let ?s = "self\<lparr>unmixing := Some U1, mixing := Some M1\<rparr>"
  from fit_stage1_Inr [OF Inr [unfolded r]]
  have c: "ncols U1 = nrows M1"
    and f: "fit lib self epochs keep1 keep2 keep3 c1 c2 det =
           (if kind self = Difference then fit_stage2 lib ?s epochs X b c d e else (Inr (), ?s))"
    by simp_all
  from f assms have k: "kind self = Difference" by (auto split: if_splits)
  with f have f2: "fit lib self epochs keep1 keep2 keep3 c1 c2 det = fit_stage2 lib ?s epochs X b c d e"
    by simp
  have "unmixing ?s = Some U1" "mixing ?s = Some M1" by simp_all
  from fit_stage2_cases [OF this c, of lib epochs X b c d e] f2 assms
  have "fit_stage2 lib ?s epochs X b c d e = (Inl err, ?s)" by auto
  with f2 k show ?thesis by (simp add: Inr r)
qed

theorem failed_fit_state_witness:
  "fst (fit test_lib fitted_square ep_corr None None None None None False) = Inl LinAlgError \<and>
   fit_stage1 test_lib fitted_square ep_corr None None None None None False = Inl LinAlgError \<and>
   snd (fit test_lib fitted_square ep_corr None None None None None False) = fitted_square \<and>
   fst (fit test_lib fitted_two ep_three None None None (Some ''a'') (Some ''b'') False)
     = Inl ShapeMismatch \<and>
   fit_stage1 test_lib fitted_two ep_three None None None (Some ''a'') (Some ''b'') False =
     Inr (Matrix 3 1 [2, 3, 6], 1, Some 1, Some ''a'', Some ''b'', Matrix 1 1 [1 / 7], Matrix 1 1 [7]) \<and>
   snd (fit test_lib fitted_two ep_three None None None (Some ''a'') (Some ''b'') False) =
     fitted_two\<lparr>unmixing := Some (Matrix 1 1 [1 / 7]), mixing := Some (Matrix 1 1 [7])\<rparr>"
proof -
  have h1: "fst (fit test_lib fitted_square ep_corr None None None None None False) = Inl LinAlgError"
    by (simp only: fitted_square_eq refit_corr_eq)
  have s1: "fit_stage1 test_lib fitted_square ep_corr None None None None None False = Inl LinAlgError"
    by (simp only: fitted_square_eq stage1_refit_corr_eq)
  from failed_fit_state [OF h1] s1
  have r1: "snd (fit test_lib fitted_square ep_corr None None None None None False) = fitted_square"
    by simp
  have ft: "fitted_two =
      \<lparr>kind = Difference, mixing = Some (Matrix 1 1 [5]), unmixing = Some (Matrix 1 1 [1 / 5])\<rparr>"
    by (simp only: fitted_two_def fitted_two_eq snd_conv)
  have h2: "fst (fit test_lib fitted_two ep_three None None None (Some ''a'') (Some ''b'') False)
              = Inl ShapeMismatch"
    by (simp only: ft refit_three_eq fst_conv)
  have s2: "fit_stage1 test_lib fitted_two ep_three None None None (Some ''a'') (Some ''b'') False =
     Inr (Matrix 3 1 [2, 3, 6], 1, Some 1, Some ''a'', Some ''b'', Matrix 1 1 [1 / 7], Matrix 1 1 [7])"
    by (simp only: ft stage1_refit_three_eq)
  from failed_fit_state [OF h2]
  have r2: "snd (fit test_lib fitted_two ep_three None None None (Some ''a'') (Some ''b'') False) =
     fitted_two\<lparr>unmixing := Some (Matrix 1 1 [1 / 7]), mixing := Some (Matrix 1 1 [7])\<rparr>"
    by (simp only: s2 sum.case prod.case simp_thms)
  from h1 s1 r1 h2 s2 r2 show ?thesis by (simp only: simp_thms)
qed

section \<open>C5: reprojection is unmixing followed by mixing\<close>

text \<open>
  Claim C5. For a fitted model (unmixing U and mixing M stored, the columns of U as many
  as the rows of M) and an epochs input with at least one trial, at least one sample and
  as many channels as U has rows, \<open>reproject_components\<close> returns the input flattened
  by the convention of 4.2, multiplied by U, then by M, and reshaped back by the inverse
  convention; nothing else is done to the data.
\<close>

theorem reproject_is_unmix_then_mix:
  assumes fitted: "unmixing self = Some U" "mixing self = Some M"
    and valid: "0 < dim0 (data epochs)" "0 < dim2 (data epochs)"
      "dim1 (data epochs) = nrows U" "ncols U = nrows M"
  shows "\<exists>Y X. matmul (spec_flatten (data epochs)) U = Inr Y \<and> matmul Y M = Inr X \<and>
           reproject_components self epochs =
             Inr (EpochsArray (spec_unflatten X (dim0 (data epochs)) (dim2 (data epochs)))
                    (info epochs) (events epochs) (tmin epochs))"
proof -
  obtain Y where Y: "matmul (spec_flatten (data epochs)) U = Inr Y"
      "nrows Y = dim0 (data epochs) * dim2 (data epochs)" "ncols Y = ncols U"
    using matmul_conform [of "spec_flatten (data epochs)" U] valid(3) by auto
  obtain X where X: "matmul Y M = Inr X" "nrows X = dim0 (data epochs) * dim2 (data epochs)"
    using matmul_conform [of Y M] Y(2,3) valid(4) by auto
  have "bindE (reshape_infer (mT X) (dim0 (data epochs)) (dim2 (data epochs)))
          (\<lambda>Y. Inr (transpose_102 Y))
        = Inr (spec_unflatten X (dim0 (data epochs)) (dim2 (data epochs)))"
    using X(2) valid(1,2) by (rule unflatten_eq)
  then have "reproject_components self epochs =
      Inr (EpochsArray (spec_unflatten X (dim0 (data epochs)) (dim2 (data epochs)))
             (info epochs) (events epochs) (tmin epochs))"
    by (auto simp: reproject_components_def flatten_trials_eq matmul_r_def fitted Y(1) X(1)
        bindE_eq_Inr Let_def)
  with Y(1) X(1) show ?thesis by blast
qed

theorem reproject_is_unmix_then_mix_witness:
  "unmixing fitted_square = Some (Matrix 2 2 [1, 0, 0, 1]) \<and>
   mixing fitted_square = Some (Matrix 2 2 [1, 0, 0, 1]) \<and>
   reproject_components fitted_square ep_square =
     Inr (EpochsArray (spec_unflatten (Matrix 2 2 [1, 0, 0, 1]) 1 2)
            (info ep_square) (events ep_square) (tmin ep_square))"
proof -
  have u: "unmixing fitted_square = Some (Matrix 2 2 [1, 0, 0, 1])"
    and m: "mixing fitted_square = Some (Matrix 2 2 [1, 0, 0, 1])"
    by (simp_all add: fitted_square_eq)
  have Y: "matmul (spec_flatten (data ep_square)) (Matrix 2 2 [1, 0, 0, 1]) = Inr (Matrix 2 2 [1, 0, 0, 1])"
    by code_simp
  have X: "matmul (Matrix 2 2 [1, 0, 0, 1]) (Matrix 2 2 [1, 0, 0, 1::rat]) = Inr (Matrix 2 2 [1, 0, 0, 1])"
    by code_simp
  have d: "dim0 (data ep_square) = 1" "dim2 (data ep_square) = 2" "dim1 (data ep_square) = 2"
    by (simp_all add: ep_square_def)
  from reproject_is_unmix_then_mix [OF u m, of ep_square]
  show ?thesis using u m Y X d by simp
qed

section \<open>C6: the shapes of the projections\<close>

text \<open>
  Claim C6, as stated, fails: the Evoked model \<open>fitted_narrow\<close> is fitted on the two
  channels of \<open>ep_square\<close> with keep1 = 1 and keep2 = 2, and \<open>get_components\<close>
  returns one component per trial, not two.
\<close>

theorem component_count_counterexample:
  "fst (fit test_lib fresh_evoked ep_square (Some 1) (Some 2) None None None True) = Inr () \<and>
   bindE (get_components fitted_narrow ep_square) (\<lambda>Y. Inr (shape3 Y)) = Inr (1, 1, 2)"
  by (simp only: fitted_narrow_def fitted_narrow_eq fst_conv snd_conv narrow_components_eq simp_thms)

text \<open>
  Claim C6, amended. For a model fitted in Evoked mode with keep2 = k, by a library
  that keeps the documented result shapes, and an input with at least one trial, at
  least one sample and the channel count of the fit, \<open>get_components\<close> returns a
  tensor of shape (n_trials, k', n_samples), where k' is what the slices retain:
  \<open>kept (kept n_channels keep1) k\<close>, that is min(k, keep1, n_channels) for non-negative
  values and k itself when k \<le> keep1 \<le> n_channels, provided that k' is at least 1
  (a container without channels cannot be built). \<open>reproject_components\<close> then
  returns a tensor of the shape of its input.
\<close>

theorem projection_shapes:
  assumes ok: "lib_ok lib" and ev: "kind self = Evoked"
    and fit: "fit lib self fit_epochs keep1 (Some k) keep3 c1 c2 det = (Inr (), model)"
    and ch: "dim1 (data epochs) = dim1 (data fit_epochs)"
    and pos: "0 < dim0 (data epochs)" "0 < dim2 (data epochs)"
    and some: "0 < kept (kept (dim1 (data fit_epochs))
                           (Some (case keep1 of None \<Rightarrow> int (nchan (info fit_epochs)) | Some j \<Rightarrow> j)))
                        (Some k)"
  shows "\<exists>Y R. get_components model epochs = Inr Y \<and>
           shape3 Y =
             (dim0 (data epochs),
              kept (kept (dim1 (data fit_epochs))
                      (Some (case keep1 of None \<Rightarrow> int (nchan (info fit_epochs)) | Some j \<Rightarrow> j)))
                   (Some k),
              dim2 (data epochs)) \<and>
           reproject_components model epochs = Inr R \<and> shape3 R = shape3 epochs"
proof -
  from fit_cases [of lib self fit_epochs keep1 "Some k" keep3 c1 c2 det] fit ev
  obtain X L a b c d e T1 U1 M1 where
    args: "fit_stage1_args lib self fit_epochs keep1 (Some k) keep3 c1 c2 det = Inr (X, L, a, b, c, d, e)"
    and T: "transform lib X L (Some a) (Some b) = Inr T1"
    and U: "stage_unmixing T1 = Inr U1"
    and sh: "nrows U1 = dim1 (data fit_epochs)" "ncols M1 = dim1 (data fit_epochs)"
      "ncols U1 = nrows M1"
    and model: "model = self\<lparr>unmixing := Some U1, mixing := Some M1\<rparr>"
    by auto
  from fit_stage1_args_D [OF args]
  have X: "ncols X = dim1 (data fit_epochs)"
    and a: "a = (case keep1 of None \<Rightarrow> int (nchan (info fit_epochs)) | Some j \<Rightarrow> j)"
    and b: "b = k"
    by simp_all
  obtain P N Q where T1: "T1 = (P, N, Q)" by (cases T1) auto
  from transform_Inr_kept [OF ok T [unfolded T1]] stage_unmixing_D [OF U [unfolded T1]] X a b
  have k: "ncols U1 =
      kept (kept (dim1 (data fit_epochs))
              (Some (case keep1 of None \<Rightarrow> int (nchan (info fit_epochs)) | Some j \<Rightarrow> j))) (Some k)"
    by simp
  have u: "unmixing model = Some U1" and m: "mixing model = Some M1"
    by (simp_all add: model)
  from sh(1) ch have ch': "nrows U1 = dim1 (data epochs)" by simp
  from get_components_shape [OF u ch' pos]
  obtain Y where Y: "get_components model epochs = Inr Y"
      "shape3 Y = (dim0 (data epochs), ncols U1, dim2 (data epochs))" by auto
  from reproject_components_shape [OF u m ch' sh(3) pos]
  obtain R where R: "reproject_components model epochs = Inr R"
      "shape3 R = (dim0 (data epochs), ncols M1, dim2 (data epochs))" by auto
  from R(2) sh(2) ch have "shape3 R = shape3 epochs" by (simp add: shape3_def)
  with Y R(1) k show ?thesis by simp
qed

theorem projection_shapes_witness:
  "lib_ok test_lib \<and> kind fresh_evoked = Evoked \<and>
   fit test_lib fresh_evoked ep_square (Some 1) (Some 2) None None None True = (Inr (), fitted_narrow) \<and>
   0 < kept (kept (dim1 (data ep_square)) (Some 1)) (Some 2) \<and>
   (\<exists>Y R. get_components fitted_narrow ep_square = Inr Y \<and>
           shape3 Y = (1, 1, 2) \<and>
           reproject_components fitted_narrow ep_square = Inr R \<and> shape3 R = shape3 ep_square)"
proof -
  have k: "kind fresh_evoked = Evoked" by (simp add: fresh_evoked_def)
  have h: "fit test_lib fresh_evoked ep_square (Some 1) (Some 2) None None None True
             = (Inr (), fitted_narrow)"
    by (simp add: fitted_narrow_def fitted_narrow_eq)
  have d: "dim0 (data ep_square) = 1" "dim1 (data ep_square) = 2" "dim2 (data ep_square) = 2"
    by (simp_all add: ep_square_def)
  have s: "kept (kept (dim1 (data ep_square)) (Some 1)) (Some 2) = 1"
    by (simp add: d kept_def)
  from projection_shapes [OF test_lib_ok k h, of ep_square] d s
  have "\<exists>Y R. get_components fitted_narrow ep_square = Inr Y \<and>
           shape3 Y = (1, 1, 2) \<and>
           reproject_components fitted_narrow ep_square = Inr R \<and> shape3 R = shape3 ep_square"
    by simp
  with test_lib_ok k h s show ?thesis by simp
qed

section \<open>C7: the parameters of the bootstrap\<close>

text \<open>
  Claim C7 (the code departs from it). Every iteration should fit its model with the
  keep1 and keep2 of the call. On \<open>ep_square\<close> (two channels) with keep1 = keep2 = 1
  the call raises: a fit with the supplied values gives one component, the fit of
  line 118 uses 40 and 15 and gives two, which do not fit the buffer of keep2 = 1 rows.
\<close>

theorem bootstrap_ignores_keep_at_ep_square:
  "bootstrap_components test_lib ep_square 1 1 1 (95 / 100) = Inl ShapeMismatch \<and>
   bindE (get_components (snd (fit test_lib fresh_evoked ep_square (Some 1) (Some 1) None None None True))
            ep_square) (\<lambda>Y. Inr (shape3 Y)) = Inr (1, 1, 2) \<and>
   bindE (get_components (snd (fit test_lib fresh_evoked ep_square (Some 40) (Some 15) None None None True))
            ep_square) (\<lambda>Y. Inr (shape3 Y)) = Inr (1, 2, 2)"
  by code_simp

section \<open>C8: projection before a fit\<close>

text \<open>
  Claim C8, as stated, fails: the Difference model \<open>failed_three\<close> has seen one fit
  call, which raised in its second stage, and \<open>get_components\<close> then returns a result
  instead of raising.
\<close>

theorem never_fitted_projection_counterexample:
  "fst (fit test_lib fresh_difference ep_three None None None (Some ''a'') (Some ''b'') False)
     = Inl ShapeMismatch \<and>
   get_components failed_three ep_three =
     Inr (EpochsArray (Tensor 3 1 1 [2 / 7, 3 / 7, 6 / 7]) \<lparr>nchan = 1, sfreq = 100\<rparr>
            [(0, 0, 2), (10, 0, 1), (20, 0, 3)] 0)"
  by (simp only: failed_three_def failed_three_eq fst_conv snd_conv components_after_failed_fit simp_thms)

text \<open>
  Claim C8, amended. On a model whose unmixing has never been assigned (a model just
  constructed, or one whose fit calls all raised before the first stage had stored its
  matrices), \<open>get_components\<close> and \<open>reproject_components\<close> raise for every epochs
  input. The error is the one numpy raises for the operand None of the matrix product;
  the code has no check and no message of its own.
\<close>

theorem unfitted_projection_raises:
  assumes "unmixing self = None"
  shows "get_components self epochs = Inl NoneOperand \<and>
         reproject_components self epochs = Inl NoneOperand"
  using assms
  by (simp add: get_components_def reproject_components_def flatten_trials_eq matmul_r_def)

theorem unfitted_projection_raises_witness:
  "unmixing fresh_evoked = None \<and>
   get_components fresh_evoked ep_square = Inl NoneOperand \<and>
   reproject_components fresh_evoked ep_square = Inl NoneOperand"
proof -
  have h: "unmixing fresh_evoked = None" by (simp add: fresh_evoked_def)
  from unfitted_projection_raises [OF h, of ep_square] h show ?thesis by simp
qed

section \<open>C9: the model after a fit that returns\<close>

text \<open>
  Claim C9. After a fit call that returns, unmixing and mixing are both stored; the
  unmixing has as many rows as the data has channels, the mixing as many columns, and
  the columns of the unmixing are as many as the rows of the mixing. Both are composed
  from the same triples of that call: in Evoked mode they are P N Q and
  transpose(Q) diag(1 / diag N) transpose(P) of the one triple, in Difference mode
  these are extended, on the right and on the left, by the triple of the second stage.
\<close>

theorem fit_success_consistent:
  assumes "fit lib self epochs keep1 keep2 keep3 c1 c2 det = (Inr (), self')"
  shows "\<exists>U M X L a b c d e T1 U1 M1.
           unmixing self' = Some U \<and> mixing self' = Some M \<and>
           nrows U = dim1 (data epochs) \<and> ncols M = dim1 (data epochs) \<and> ncols U = nrows M \<and>
           fit_stage1_args lib self epochs keep1 keep2 keep3 c1 c2 det = Inr (X, L, a, b, c, d, e) \<and>
           transform lib X L (Some a) (Some b) = Inr T1 \<and>
           stage_unmixing T1 = Inr U1 \<and> stage_mixing T1 = Inr M1 \<and>
           (if kind self = Evoked then U = U1 \<and> M = M1
            else \<exists>ca cb L2 Y T2.
                   getitem epochs d = Inr ca \<and> getitem epochs e = Inr cb \<and>
                   signed_filter epochs ca cb = Inr L2 \<and> matmul X U1 = Inr Y \<and>
                   transform lib Y L2 (Some b) c = Inr T2 \<and>
                   extend_unmixing U1 T2 = Inr U \<and> extend_mixing T2 M1 = Inr M)"
proof -
  from fit_cases [of lib self epochs keep1 keep2 keep3 c1 c2 det] assms
  obtain X L a b c d e T1 U1 M1 where
    args: "fit_stage1_args lib self epochs keep1 keep2 keep3 c1 c2 det = Inr (X, L, a, b, c, d, e)"
    and T: "transform lib X L (Some a) (Some b) = Inr T1"
    and U: "stage_unmixing T1 = Inr U1" and M: "stage_mixing T1 = Inr M1"
    and sh: "nrows U1 = dim1 (data epochs)" "ncols M1 = dim1 (data epochs)" "ncols U1 = nrows M1"
    and f: "fit lib self epochs keep1 keep2 keep3 c1 c2 det =
        (if kind self = Difference
         then fit_stage2 lib (self\<lparr>unmixing := Some U1, mixing := Some M1\<rparr>) epochs X b c d e
         else (Inr (), self\<lparr>unmixing := Some U1, mixing := Some M1\<rparr>))"
    by auto
  let ?s = "self\<lparr>unmixing := Some U1, mixing := Some M1\<rparr>"
  show ?thesis
  proof (cases "kind self")
    case Evoked
    with f assms have "self' = ?s" by simp
    with Evoked args T U M sh show ?thesis by (auto simp del: split_paired_Ex split_paired_All)
  next
    case Difference
    with f assms have f2: "fit_stage2 lib ?s epochs X b c d e = (Inr (), self')" by simp
    have "unmixing ?s = Some U1" "mixing ?s = Some M1" by simp_all
    from fit_stage2_cases [OF this sh(3), of lib epochs X b c d e] f2
    obtain ca cb L2 Y T2 U' M' where d2: "getitem epochs d = Inr ca" "getitem epochs e = Inr cb"
        "signed_filter epochs ca cb = Inr L2" "matmul X U1 = Inr Y"
        "transform lib Y L2 (Some b) c = Inr T2"
        "extend_unmixing U1 T2 = Inr U'" "extend_mixing T2 M1 = Inr M'"
        "self' = ?s\<lparr>unmixing := Some U', mixing := Some M'\<rparr>"
      by auto
    obtain P2 N2 Q2 where T2: "T2 = (P2, N2, Q2)" by (cases T2) auto
    from extend_unmixing_D [OF d2(6) [unfolded T2]] extend_mixing_D [OF d2(7) [unfolded T2]] sh
    have "nrows U' = dim1 (data epochs)" "ncols M' = dim1 (data epochs)" "ncols U' = nrows M'"
      by simp_all
    with Difference args T U M d2 show ?thesis by (auto simp del: split_paired_Ex split_paired_All)
  qed
qed

theorem fit_success_consistent_witness:
  "fit test_lib fresh_difference ep_two None None None None None False = (Inr (), fitted_two) \<and>
   (\<exists>U M. unmixing fitted_two = Some U \<and> mixing fitted_two = Some M \<and>
          nrows U = dim1 (data ep_two) \<and> ncols M = dim1 (data ep_two) \<and> ncols U = nrows M)"
proof -
  have h: "fit test_lib fresh_difference ep_two None None None None None False = (Inr (), fitted_two)"
    by (simp add: fitted_two_def fitted_two_eq)
  from fit_success_consistent [OF h]
  have "\<exists>U M. unmixing fitted_two = Some U \<and> mixing fitted_two = Some M \<and>
          nrows U = dim1 (data ep_two) \<and> ncols M = dim1 (data ep_two) \<and> ncols U = nrows M"
    by blast
  with h show ?thesis by simp
qed

section \<open>C10: the bootstrap returns for one iteration only\<close>

text \<open>
  Claim C10. \<open>bootstrap_components\<close> returns only when n_bootstrap is 1. With
  n_bootstrap = 0 (and a buffer that can be allocated) the names of line 123 are unbound.
  With n_bootstrap of 2 or more, a first iteration that completes has bound \<open>ci\<close> to
  the pair of ranks, so the second iteration cannot complete: it raises, with TypeError
  at line 121 whenever everything before that line succeeds, and the call raises the
  same error. (When the first iteration raises, that error ends the call.)
\<close>

theorem bootstrap_returns_only_for_one_iteration:
  fixes lib :: "'a::{zero,one,plus,times,inverse,uminus} numlib"
  shows
  "(\<forall>r. bootstrap_components lib epochs n keep1 keep2 ci = Inr r \<longrightarrow> n = 1) \<and>
   (n = 0 \<and> 0 \<le> keep2 \<longrightarrow>
      bootstrap_components lib epochs n keep1 keep2 ci = Inl UnboundLocalError) \<and>
   (2 \<le> n \<longrightarrow>
      (\<forall>data' st1.
         zeros n keep2 (dim2 (data epochs)) = Inr data' \<and>
         bootstrap_body lib epochs (dim0 (data epochs)) 0
           \<lparr>buffer = data', ci_var = Level ci, bands = None\<rparr> = Inr st1 \<longrightarrow>
         (\<exists>e. bootstrap_body lib epochs (dim0 (data epochs)) 1 st1 = Inl e \<and>
              bootstrap_components lib epochs n keep1 keep2 ci = Inl e \<and>
              (\<forall>c st2. bootstrap_body lib epochs (dim0 (data epochs)) 1 (st1\<lparr>ci_var := Level c\<rparr>)
                          = Inr st2 \<longrightarrow> e = TypeError))))"
proof (intro conjI allI impI)
  fix r
  assume ret: "bootstrap_components lib epochs n keep1 keep2 ci = Inr r"
  then obtain data' :: "'a tensor" where z: "zeros n keep2 (dim2 (data epochs)) = Inr data'"
    by (auto simp: bootstrap_components_def bindE_eq_Inr)
  then have n0: "0 \<le> n" by (auto simp: zeros_def split: if_splits)
  show "n = 1"
  proof (rule ccontr)
    assume "n \<noteq> 1"
    with n0 consider "n = 0" | "2 \<le> n" by linarith
    then show False
    proof cases
      case 1
      with ret z show False by (simp add: bootstrap_components_def)
    next
      case 2
      from bootstrap_loop_two_fails [of lib epochs "dim0 (data epochs)" 0 1 "[2..<nat n]"
          "\<lparr>buffer = data', ci_var = Level ci, bands = None\<rparr>"]
      obtain e where "bootstrap_loop lib epochs (dim0 (data epochs)) [0..<nat n]
          \<lparr>buffer = data', ci_var = Level ci, bands = None\<rparr> = Inl e"
        by (auto simp: range_two [OF 2])
      with ret z show False by (simp add: bootstrap_components_def)
    qed
  qed
next
  assume "n = 0 \<and> 0 \<le> keep2"
  then show "bootstrap_components lib epochs n keep1 keep2 ci = Inl UnboundLocalError"
    by (simp add: bootstrap_components_def zeros_def)
next
  fix data' st1
  assume n: "2 \<le> n"
    and h: "zeros n keep2 (dim2 (data epochs)) = Inr data' \<and>
         bootstrap_body lib epochs (dim0 (data epochs)) 0
           \<lparr>buffer = data', ci_var = Level ci, bands = None\<rparr> = Inr st1"
  then have z: "zeros n keep2 (dim2 (data epochs)) = Inr data'"
    and b: "bootstrap_body lib epochs (dim0 (data epochs)) 0
           \<lparr>buffer = data', ci_var = Level ci, bands = None\<rparr> = Inr st1"
    by simp_all
  from bootstrap_loop_two [OF b, of 1 "[2..<nat n]"]
  obtain e where e: "bootstrap_body lib epochs (dim0 (data epochs)) 1 st1 = Inl e"
      "bootstrap_loop lib epochs (dim0 (data epochs)) [0..<nat n]
          \<lparr>buffer = data', ci_var = Level ci, bands = None\<rparr> = Inl e"
    by (auto simp: range_two [OF n])
  from e(2) z have bc: "bootstrap_components lib epochs n keep1 keep2 ci = Inl e"
    by (simp add: bootstrap_components_def)
  have "e = TypeError"
    if "bootstrap_body lib epochs (dim0 (data epochs)) 1 (st1\<lparr>ci_var := Level c\<rparr>) = Inr st2"
    for c st2
  proof -
    from bootstrap_body_Inr [OF b] obtain lo hi where "ci_var st1 = Ranks lo hi"
      by (cases "ci_var st1") auto
    from bootstrap_body_TypeError [OF this that] e(1) show ?thesis by simp
  qed
  with e(1) bc
  show "\<exists>e. bootstrap_body lib epochs (dim0 (data epochs)) 1 st1 = Inl e \<and>
              bootstrap_components lib epochs n keep1 keep2 ci = Inl e \<and>
              (\<forall>c st2. bootstrap_body lib epochs (dim0 (data epochs)) 1 (st1\<lparr>ci_var := Level c\<rparr>)
                          = Inr st2 \<longrightarrow> e = TypeError)"
    by blast
qed

theorem bootstrap_returns_only_for_one_iteration_witness:
  "bootstrap_components test_lib ep_square 1 2 2 (95 / 100) =
     Inr (Matrix 2 2 [1, 0, 0, 1], Matrix 2 2 [1, 0, 0, 1]) \<and>
   bootstrap_components test_lib ep_square 0 2 2 (95 / 100) = Inl UnboundLocalError \<and>
   bootstrap_components test_lib ep_square 2 2 2 (95 / 100) = Inl TypeError"
proof -
  from bootstrap_returns_only_for_one_iteration [of test_lib ep_square 0 2 2 "95 / 100"]
  have "bootstrap_components test_lib ep_square 0 2 2 (95 / 100) = Inl UnboundLocalError"
    by simp
  with bootstrap_one_eq bootstrap_two_eq show ?thesis by simp
qed

end
